theory Spec2Isabelle
  imports Complex_Main "HOL-Library.AList" "HOL-Library.Multiset"
begin

section \<open>Values, documents and errors\<close>

text \<open>
  The YANG instance tree that \<^verbatim>\<open>gnpy/yang/io.py\<close> reads and the raw JSON-like structure
  it writes share one shape: scalar leaves, objects with named members (in document order)
  and lists. Decimal leaves carry the number their text denotes; Python floats are
  idealised as rationals throughout.
\<close>

datatype yang =
    YStr string
  | YNum rat
  | YBool bool
  | YNull
  | YObj "(string \<times> yang) list"
  | YList "yang list"

text \<open>The exceptions that the module raises or lets through, as values.\<close>

datatype error =
    KeyError string
  | AttributeError string
  | RuntimeError string
  | TypeError string
  | ValueError string yang
  | NotImplementedError string
  | StopIteration
  | NonexistentInstance string
  | InstanceValueError string
  | NetworkTopologyError string
  | ConfigurationError string
  | EquipmentConfigError string
  | YangValidationError string
  | EstimateNfModelError string
  | IndexError string
  | UnboundLocalError string

text \<open>
  Python values held in attributes of the equipment records. The \<^verbatim>\<open>Model_*\<close> named
  tuples of \<^verbatim>\<open>gnpy.tools.json_io\<close> are constructors with the fields the module reads
  and writes: \<^verbatim>\<open>Model_dual_stage(preamp_variety, booster_variety)\<close>,
  \<^verbatim>\<open>Model_vg(nf1, nf2, delta_p, orig_nf_min, orig_nf_max)\<close>, \<^verbatim>\<open>Model_fg(nf0)\<close>,
  \<^verbatim>\<open>Model_openroadm_ila(nf_coef)\<close>.
\<close>

datatype pyval =
    PNone
  | PBool bool
  | PNum rat
  | PStr string
  | PList "pyval list"
  | PDict "(string \<times> pyval) list"
  | Model_dual_stage string string
  | Model_vg rat rat rat rat rat
  | Model_fg rat
  | Model_openroadm_ila "rat list"
  | Model_openroadm_preamp
  | Model_openroadm_booster

text \<open>
  An object is its \<^verbatim>\<open>__dict__\<close>: attribute names with values, in insertion order.
  \<^verbatim>\<open>setattr\<close> is \<^const>\<open>AList.update\<close>: an existing attribute keeps its place, a new one
  goes to the end.
\<close>

type_synonym pyobj = "(string \<times> pyval) list"

fun ebind :: "error + 'a \<Rightarrow> ('a \<Rightarrow> error + 'b) \<Rightarrow> error + 'b" where
  "ebind (Inl e) f = Inl e"
| "ebind (Inr x) f = f x"

definition getattr :: "pyobj \<Rightarrow> string \<Rightarrow> error + pyval" where
  "getattr obj attr = (case map_of obj attr of None \<Rightarrow> Inl (AttributeError attr) | Some v \<Rightarrow> Inr v)"

definition setattr :: "pyobj \<Rightarrow> string \<Rightarrow> pyval \<Rightarrow> pyobj" where
  "setattr obj attr v = AList.update attr v obj"

section \<open>Dual-stage resolution\<close>

text \<open>
  The amplifier table \<^verbatim>\<open>Dict[str, Amp]\<close>: type names with their records, in insertion
  order. Each name owns its record (the loader builds one record per entry).
\<close>

type_synonym amps = "(string \<times> pyobj) list"

text \<open>
  \<^verbatim>\<open>for attr in src.__dict__.keys(): setattr(this_amp, prefix + attr, getattr(src, attr))\<close>
  where \<^verbatim>\<open>src\<close> is another record than \<^verbatim>\<open>this_amp\<close>.
\<close>

definition copy_attrs :: "string \<Rightarrow> pyobj \<Rightarrow> pyobj \<Rightarrow> pyobj" where
  "copy_attrs prefix src this_amp =
     fold (\<lambda>attr obj. setattr obj (prefix @ attr) (the (map_of src attr))) (map fst src) this_amp"

text \<open>
  The same loop when \<^verbatim>\<open>src\<close> is \<^verbatim>\<open>this_amp\<close> itself: the loop then walks the
  dictionary it writes to, and Python raises \<^verbatim>\<open>RuntimeError\<close> at the step after the first
  write that adds an attribute. The record keeps what was written until then.
\<close>

fun copy_attrs_self :: "string \<Rightarrow> string list \<Rightarrow> pyobj \<Rightarrow> error option \<times> pyobj" where
  "copy_attrs_self prefix [] obj = (None, obj)"
| "copy_attrs_self prefix (attr # attrs) obj =
     (let obj' = setattr obj (prefix @ attr) (the (map_of obj attr))
      in if length obj' \<noteq> length obj
         then (Some (RuntimeError ''dictionary changed size during iteration''), obj')
         else copy_attrs_self prefix attrs obj')"

text \<open>One round of the loop of \<^verbatim>\<open>_fixup_dual_stage\<close>, for the entry \<^verbatim>\<open>name\<close>.\<close>

definition fixup_entry :: "string \<Rightarrow> amps \<Rightarrow> error option \<times> amps" where
  "fixup_entry name amps =
     (case map_of amps name of
        None \<Rightarrow> (Some (KeyError name), amps)
      | Some amp \<Rightarrow>
         (case map_of amp ''dual_stage_model'' of
            None \<Rightarrow> (Some (AttributeError ''dual_stage_model''), amps)
          | Some PNone \<Rightarrow> (None, amps)
          | Some (Model_dual_stage preamp_variety booster_variety) \<Rightarrow>
             (case map_of amps preamp_variety of
                None \<Rightarrow> (Some (KeyError preamp_variety), amps)
              | Some preamp \<Rightarrow>
                 (case map_of amps booster_variety of
                    None \<Rightarrow> (Some (KeyError booster_variety), amps)
                  | Some booster \<Rightarrow>
                     if preamp_variety = name then
                       (case copy_attrs_self ''preamp_'' (map fst amp) amp of
                          (Some e, this_amp) \<Rightarrow> (Some e, AList.update name this_amp amps)
                        | (None, this_amp) \<Rightarrow>
                            (if booster_variety = name
                             then (case copy_attrs_self ''booster_'' (map fst this_amp) this_amp of
                                     (r, this_amp') \<Rightarrow> (r, AList.update name this_amp' amps))
                             else (None, AList.update name (copy_attrs ''booster_'' booster this_amp) amps)))
                     else
                       (let this_amp = copy_attrs ''preamp_'' preamp amp
                        in if booster_variety = name
                           then (case copy_attrs_self ''booster_'' (map fst this_amp) this_amp of
                                   (r, this_amp') \<Rightarrow> (r, AList.update name this_amp' amps))
                           else (None, AList.update name (copy_attrs ''booster_'' booster this_amp) amps))))
          | Some _ \<Rightarrow> (Some (AttributeError ''preamp_variety''), amps)))"

fun fixup_loop :: "string list \<Rightarrow> amps \<Rightarrow> error option \<times> amps" where
  "fixup_loop [] amps = (None, amps)"
| "fixup_loop (name # names) amps =
     (case fixup_entry name amps of
        (Some e, amps') \<Rightarrow> (Some e, amps')
      | (None, amps') \<Rightarrow> fixup_loop names amps')"

text \<open>
  \<^verbatim>\<open>_fixup_dual_stage\<close>: the table as the call leaves it, with the exception it raised if
  any. The records are changed in place, so what was written before an exception stays.
\<close>

definition fixup_dual_stage :: "amps \<Rightarrow> error option \<times> amps" where
  "fixup_dual_stage amps = fixup_loop (map fst amps) amps"

subsection \<open>Predicates on amplifier tables\<close>

text \<open>A record that is not a composite: its \<^verbatim>\<open>dual_stage_model\<close> is \<^verbatim>\<open>None\<close>.\<close>

definition is_plain :: "pyobj \<Rightarrow> bool" where
  "is_plain amp \<longleftrightarrow> map_of amp ''dual_stage_model'' = Some PNone"

text \<open>
  A table whose composites reference only non-composite entries of the same table: every
  record is plain, or names a preamp and a booster that are both there and both plain.
\<close>

definition entry_flat :: "amps \<Rightarrow> pyobj \<Rightarrow> bool" where
  "entry_flat amps amp =
     (case map_of amp ''dual_stage_model'' of
        Some PNone \<Rightarrow> True
      | Some (Model_dual_stage p b) \<Rightarrow>
          (case (map_of amps p, map_of amps b) of
             (Some pa, Some ba) \<Rightarrow> is_plain pa \<and> is_plain ba
           | _ \<Rightarrow> False)
      | _ \<Rightarrow> False)"

definition flat_amps :: "amps \<Rightarrow> bool" where
  "flat_amps amps = list_all (\<lambda>(name, amp). entry_flat amps amp) amps"

text \<open>
  An entry the loop gets past without raising: it is plain, or a composite whose preamp
  and booster names are keys of the table and are not its own name.
\<close>

definition passes :: "amps \<Rightarrow> string \<Rightarrow> pyobj \<Rightarrow> bool" where
  "passes amps name amp =
     (case map_of amp ''dual_stage_model'' of
        Some PNone \<Rightarrow> True
      | Some (Model_dual_stage p b) \<Rightarrow>
          p \<in> fst ` set amps \<and> b \<in> fst ` set amps \<and> p \<noteq> name \<and> b \<noteq> name
      | _ \<Rightarrow> False)"

text \<open>
  Two relations between the table \<open>T\<close> the resolver was given and the table \<open>s\<close> it
  has reached: \<open>keeps\<close> says every entry is still there with the same
  \<^verbatim>\<open>dual_stage_model\<close> and plain entries are untouched; \<open>resolved\<close> says an entry is
  plain or already carries the attributes that another round would write.
\<close>

definition keeps :: "amps \<Rightarrow> amps \<Rightarrow> bool" where
  "keeps T s \<longleftrightarrow> (\<forall>n a. map_of T n = Some a \<longrightarrow>
       (\<exists>a'. map_of s n = Some a' \<and> map_of a' ''dual_stage_model'' = map_of a ''dual_stage_model''
             \<and> (is_plain a \<longrightarrow> a' = a)))"

definition resolved :: "amps \<Rightarrow> amps \<Rightarrow> string \<Rightarrow> bool" where
  "resolved T s n \<longleftrightarrow> (\<exists>a'. map_of s n = Some a' \<and>
      (is_plain a' \<or> (\<exists>p b pa ba. map_of a' ''dual_stage_model'' = Some (Model_dual_stage p b)
          \<and> map_of T p = Some pa \<and> is_plain pa \<and> map_of T b = Some ba \<and> is_plain ba
          \<and> copy_attrs ''booster_'' ba (copy_attrs ''preamp_'' pa a') = a')))"

subsection \<open>Example tables\<close>

definition amp_A :: pyobj where
  "amp_A = [(''type_variety'', PStr ''A''), (''nf0'', PNum 5), (''dual_stage_model'', PNone)]"

definition amp_B :: pyobj where
  "amp_B = [(''type_variety'', PStr ''B''), (''nf0'', PNum 6), (''dual_stage_model'', PNone)]"

definition amp_C :: pyobj where
  "amp_C = [(''type_variety'', PStr ''C''), (''dual_stage_model'', Model_dual_stage ''A'' ''B'')]"

definition amp_C2 :: pyobj where
  "amp_C2 = [(''type_variety'', PStr ''C2''), (''dual_stage_model'', Model_dual_stage ''X'' ''B'')]"

definition amps_resolvable :: amps where
  "amps_resolvable = [(''A'', amp_A), (''B'', amp_B), (''C'', amp_C)]"

definition amps_unresolved :: amps where
  "amps_unresolved = [(''C'', amp_C), (''C2'', amp_C2), (''A'', amp_A), (''B'', amp_B)]"

section \<open>Reading the instance tree\<close>

text \<open>\<^verbatim>\<open>key in yang\<close>: membership among an object's member names.\<close>

fun ymem :: "string \<Rightarrow> yang \<Rightarrow> bool" where
  "ymem key (YObj ms) = (map_of ms key \<noteq> None)"
| "ymem key _ = False"

text \<open>
  The local part of a member name: what follows the module prefix and its colon, or the
  whole name when there is no prefix.
\<close>

definition local_name :: "string \<Rightarrow> string" where
  "local_name key =
     (case dropWhile (\<lambda>c. c \<noteq> CHR '':'') key of [] \<Rightarrow> key | colon # rest \<Rightarrow> rest)"

text \<open>
  \<^verbatim>\<open>yang[key]\<close>. A member whose module is that of its parent is held under its local
  name, and yangson finds it under the module-qualified key as well: the module reads
  \<^verbatim>\<open>loc['tip-photonic-topology:x']\<close> after testing \<^verbatim>\<open>'x' in loc\<close>. The tree does not
  record modules, so a qualified key that has no member of its own falls back to the member
  of its local name. yangson raises \<^verbatim>\<open>NonexistentInstance\<close> for a missing member.
\<close>

fun yget :: "yang \<Rightarrow> string \<Rightarrow> error + yang" where
  "yget (YObj ms) key =
     (case map_of ms key of
        Some v \<Rightarrow> Inr v
      | None \<Rightarrow>
          (case map_of ms (local_name key) of
             Some v \<Rightarrow> Inr v
           | None \<Rightarrow> Inl (NonexistentInstance key)))"
| "yget _ key = Inl (InstanceValueError key)"

text \<open>\<^verbatim>\<open>for x in yang[key]\<close>: the entries of a list node.\<close>

fun yentries :: "yang \<Rightarrow> error + yang list" where
  "yentries (YList xs) = Inr xs"
| "yentries _ = Inl (InstanceValueError ''entries'')"

text \<open>\<^verbatim>\<open>float(x.value)\<close> and \<^verbatim>\<open>int(x.value)\<close>; \<^verbatim>\<open>int\<close> truncates towards zero.\<close>

fun float_value :: "yang \<Rightarrow> error + rat" where
  "float_value (YNum r) = Inr r"
| "float_value (YBool b) = Inr (if b then 1 else 0)"
| "float_value (YStr s) = Inl (ValueError ''could not convert string to float'' (YStr s))"
| "float_value _ = Inl (TypeError ''float() argument must be a string or a number'')"

definition py_int :: "rat \<Rightarrow> int" where
  "py_int r = (if r < 0 then \<lceil>r\<rceil> else \<lfloor>r\<rfloor>)"

fun int_value :: "yang \<Rightarrow> error + int" where
  "int_value (YNum r) = Inr (py_int r)"
| "int_value (YBool b) = Inr (if b then 1 else 0)"
| "int_value (YStr s) = Inl (ValueError ''invalid literal for int()'' (YStr s))"
| "int_value _ = Inl (TypeError ''int() argument must be a string or a number'')"

text \<open>
  \<^verbatim>\<open>x.value\<close> where the module goes on to use the value as a name; the schema types
  these leaves as strings.
\<close>

fun str_value :: "yang \<Rightarrow> error + string" where
  "str_value (YStr s) = Inr s"
| "str_value _ = Inl (TypeError ''leaf is not a string'')"

definition yfloat :: "yang \<Rightarrow> string \<Rightarrow> error + rat" where
  "yfloat y key = ebind (yget y key) float_value"

definition ystr :: "yang \<Rightarrow> string \<Rightarrow> error + string" where
  "ystr y key = ebind (yget y key) str_value"

fun emap :: "('a \<Rightarrow> error + 'b) \<Rightarrow> 'a list \<Rightarrow> error + 'b list" where
  "emap f [] = Inr []"
| "emap f (x # xs) = ebind (f x) (\<lambda>y. ebind (emap f xs) (\<lambda>ys. Inr (y # ys)))"

section \<open>Spectrum interpolation\<close>

text \<open>
  \<^verbatim>\<open>numpy.interp\<close> at one point \<open>x\<close>, over sample points in ascending order: the
  value of the first point to the left of the range, of the last point to its right, and
  on the segment between the two neighbouring points otherwise (for a repeated
  coordinate, the last of them is the one not above \<open>x\<close>).
\<close>

fun interp_at :: "(int \<times> rat) list \<Rightarrow> int \<Rightarrow> rat" where
  "interp_at [] x = 0"
| "interp_at [(k, v)] x = v"
| "interp_at ((k0, v0) # (k1, v1) # ps) x =
     (if x < k0 then v0
      else if x < k1 then v0 + (v1 - v0) * (of_int (x - k0) / of_int (k1 - k0))
      else interp_at ((k1, v1) # ps) x)"

text \<open>\<^verbatim>\<open>numpy.interp(x, xp, fp)\<close>; it raises on no sample points and on unequal lengths.\<close>

definition np_interp :: "int list \<Rightarrow> int list \<Rightarrow> rat list \<Rightarrow> error + rat list" where
  "np_interp x xp fp =
     (if xp = [] then Inl (ValueError ''array of sample points is empty'' YNull)
      else if length xp \<noteq> length fp then Inl (ValueError ''fp and xp are not of the same length'' YNull)
      else Inr (map (interp_at (zip xp fp)) x))"

text \<open>\<^verbatim>\<open>[int(191.3e12 + channel * 50e9) for channel in range(96)]\<close>\<close>

definition frequencies :: "int list" where
  "frequencies = map (\<lambda>channel. 191300000000000 + int channel * 50000000000) [0..<96]"

text \<open>\<^verbatim>\<open>(int(x['frequency'].value), float(x[key].value))\<close> for one list entry.\<close>

definition spectrum_point :: "string \<Rightarrow> yang \<Rightarrow> error + int \<times> rat" where
  "spectrum_point key x =
     ebind (ebind (yget x ''frequency'') int_value) (\<lambda>f.
     ebind (ebind (yget x key) float_value) (\<lambda>v. Inr (f, v)))"

text \<open>
  \<^verbatim>\<open>_extract_per_spectrum\<close>; \<open>spectrum_data\<close> is its list comprehension over
  \<^verbatim>\<open>yang[key]\<close>. The absent case returns the tuple \<^verbatim>\<open>(0, )\<close>, here the
  one-element list.
\<close>

definition spectrum_data :: "string \<Rightarrow> yang \<Rightarrow> error + (int \<times> rat) list" where
  "spectrum_data key yang =
     ebind (ebind (yget yang key) yentries) (emap (spectrum_point key))"

definition extract_per_spectrum :: "string \<Rightarrow> yang \<Rightarrow> error + rat list" where
  "extract_per_spectrum key yang =
     (if \<not> ymem key yang then Inr [0]
      else ebind (spectrum_data key yang) (\<lambda>data0.
           let data = sort_key fst data0;
               keys = map fst data;
               values = map snd data
           in np_interp frequencies keys values))"

subsection \<open>Example entries with a gain ripple\<close>

definition ripple_doc :: yang where
  "ripple_doc = YObj [(''type'', YStr ''A''), (''gain-ripple'',
      YList [YObj [(''frequency'', YNum 191400000000000), (''gain-ripple'', YNum 3)],
             YObj [(''frequency'', YNum 191300000000000), (''gain-ripple'', YNum 1)]])]"

definition ripple_doc_single :: yang where
  "ripple_doc_single = YObj [(''type'', YStr ''A''), (''gain-ripple'',
      YList [YObj [(''frequency'', YNum 193000000000000), (''gain-ripple'', YNum 2)]])]"

text \<open>An entry whose gain ripple is present and holds no point.\<close>

definition ripple_doc_empty :: yang where
  "ripple_doc_empty = YObj [(''type'', YStr ''A''), (''gain-ripple'', YList [])]"

section \<open>Equipment transformers\<close>

text \<open>
  Modelled from the spec: \<^verbatim>\<open>gnpy.yang.conversion\<close> is not among the sources; the spec
  names its factors as terahertz to hertz and gigahertz to hertz.
\<close>

definition THZ :: rat where
  "THZ = 1000000000000"

definition GIGA :: rat where
  "GIGA = 1000000000"

text \<open>The four coefficients \<^verbatim>\<open>float(model['a'].value)\<close> ... \<^verbatim>\<open>float(model['d'].value)\<close>.\<close>

definition coef_abcd :: "yang \<Rightarrow> error + rat list" where
  "coef_abcd model =
     ebind (yfloat model ''a'') (\<lambda>a. ebind (yfloat model ''b'') (\<lambda>b.
     ebind (yfloat model ''c'') (\<lambda>c. ebind (yfloat model ''d'') (\<lambda>d. Inr [a, b, c, d]))))"

text \<open>
  The \<^verbatim>\<open>if\<close>/\<^verbatim>\<open>elif\<close> chain of \<^verbatim>\<open>_transform_edfa\<close> for a non-composite entry; it
  yields \<^verbatim>\<open>(type_def, nf_model, nf_fit_coeff)\<close>. \<^verbatim>\<open>_sci.estimate_nf_model\<close> is not
  defined in \<^verbatim>\<open>gnpy/core/science_utils.py\<close> as it stands, so it is a parameter: the three
  numbers it returns, or \<open>None\<close> when the call raises.
\<close>

definition edfa_nf_model ::
  "(string \<Rightarrow> rat \<Rightarrow> rat \<Rightarrow> rat \<Rightarrow> rat \<Rightarrow> (rat \<times> rat \<times> rat) option) \<Rightarrow> string \<Rightarrow> yang
     \<Rightarrow> error + string \<times> pyval \<times> pyval" where
  "edfa_nf_model estimate_nf_model name edfa =
     (if ymem ''polynomial-NF'' edfa then
        ebind (yget edfa ''polynomial-NF'') (\<lambda>model.
        ebind (coef_abcd model) (\<lambda>nf_fit_coeff.
        Inr (''advanced_model'', PNone, PList (map PNum nf_fit_coeff))))
      else if ymem ''OpenROADM-ILA'' edfa then
        ebind (yget edfa ''OpenROADM-ILA'') (\<lambda>model.
        ebind (coef_abcd model) (\<lambda>nf_coef.
        Inr (''openroadm'', Model_openroadm_ila nf_coef, PNone)))
      else if ymem ''OpenROADM-preamp'' edfa then Inr (''openroadm_preamp'', PNone, PNone)
      else if ymem ''OpenROADM-booster'' edfa then Inr (''openroadm_booster'', PNone, PNone)
      else if ymem ''min-max-NF'' edfa then
        ebind (yget edfa ''min-max-NF'') (\<lambda>model.
        ebind (yfloat model ''nf-min'') (\<lambda>nf_min.
        ebind (yfloat model ''nf-max'') (\<lambda>nf_max.
        ebind (yfloat edfa ''gain-min'') (\<lambda>gain_min.
        ebind (yfloat edfa ''gain-flatmax'') (\<lambda>gain_flatmax.
        (case estimate_nf_model name gain_min gain_flatmax nf_min nf_max of
           None \<Rightarrow> Inl (EstimateNfModelError name)
         | Some (nf1, nf2, delta_p) \<Rightarrow>
             Inr (''variable_gain'', Model_vg nf1 nf2 delta_p nf_min nf_max, PNone)))))))
      else if ymem ''raman-approximation'' edfa then
        ebind (yget edfa ''raman-approximation'') (\<lambda>model.
        ebind (yfloat model ''nf'') (\<lambda>nf.
        Inr (''advanced_model'', PNone, PList [PNum 0, PNum 0, PNum 0, PNum nf])))
      else Inl (NotImplementedError name))"

text \<open>The local variables of \<^verbatim>\<open>_transform_edfa\<close> that the two branches set.\<close>

record edfa_locals =
  type_def :: pyval
  nf_model :: pyval
  dual_stage_model :: pyval
  f_min :: pyval
  f_max :: pyval
  gain_flatmax :: pyval
  p_max :: pyval
  nf_fit_coeff :: pyval
  nf_ripple :: pyval
  dgt :: pyval
  gain_ripple :: pyval

definition edfa_branches ::
  "(string \<Rightarrow> rat \<Rightarrow> rat \<Rightarrow> rat \<Rightarrow> rat \<Rightarrow> (rat \<times> rat \<times> rat) option) \<Rightarrow> string \<Rightarrow> yang
     \<Rightarrow> error + edfa_locals" where
  "edfa_branches estimate_nf_model name edfa =
     (if ymem ''composite'' edfa then
        ebind (yget edfa ''composite'') (\<lambda>model.
        ebind (ystr model ''preamp'') (\<lambda>preamp.
        ebind (ystr model ''booster'') (\<lambda>booster.
        Inr \<lparr>type_def = PStr ''dual_stage'', nf_model = PNone,
             dual_stage_model = Model_dual_stage preamp booster,
             f_min = PNone, f_max = PNone, gain_flatmax = PNone, p_max = PNone,
             nf_fit_coeff = PNone, nf_ripple = PNone, dgt = PNone, gain_ripple = PNone\<rparr>)))
      else
        ebind (edfa_nf_model estimate_nf_model name edfa) (\<lambda>(td, nfm, coeff).
        ebind (yfloat edfa ''gain-flatmax'') (\<lambda>flatmax.
        ebind (yfloat edfa ''frequency-min'') (\<lambda>fmin.
        ebind (yfloat edfa ''frequency-max'') (\<lambda>fmax.
        ebind (yfloat edfa ''max-power-out'') (\<lambda>pmax.
        ebind (extract_per_spectrum ''gain-ripple'' edfa) (\<lambda>ripple.
        ebind (extract_per_spectrum ''dynamic-gain-tilt'' edfa) (\<lambda>tilt.
        ebind (extract_per_spectrum ''nf-ripple'' edfa) (\<lambda>nfr.
        Inr \<lparr>type_def = PStr td, nf_model = nfm, dual_stage_model = PNone,
             f_min = PNum (fmin * THZ), f_max = PNum (fmax * THZ),
             gain_flatmax = PNum flatmax, p_max = PNum pmax,
             nf_fit_coeff = coeff, nf_ripple = PList (map PNum nfr),
             dgt = PList (map PNum tilt), gain_ripple = PList (map PNum ripple)\<rparr>)))))))))"

text \<open>
  \<^verbatim>\<open>_transform_edfa\<close>. The record \<^verbatim>\<open>_ji.Amp(...)\<close> holds the keyword arguments of the
  call as its attributes, in the order of the call.
\<close>

definition transform_edfa ::
  "(string \<Rightarrow> rat \<Rightarrow> rat \<Rightarrow> rat \<Rightarrow> rat \<Rightarrow> (rat \<times> rat \<times> rat) option) \<Rightarrow> yang \<Rightarrow> error + pyobj" where
  "transform_edfa estimate_nf_model edfa =
     ebind (ystr edfa ''type'') (\<lambda>name.
     ebind (edfa_branches estimate_nf_model name edfa) (\<lambda>l.
     ebind (yfloat edfa ''gain-min'') (\<lambda>gain_min.
     Inr [(''type_variety'', PStr name),
          (''type_def'', type_def l),
          (''f_min'', f_min l),
          (''f_max'', f_max l),
          (''gain_min'', PNum gain_min),
          (''gain_flatmax'', gain_flatmax l),
          (''p_max'', p_max l),
          (''nf_fit_coeff'', nf_fit_coeff l),
          (''nf_ripple'', nf_ripple l),
          (''dgt'', dgt l),
          (''gain_ripple'', gain_ripple l),
          (''out_voa_auto'', PNone),
          (''allowed_for_design'', PBool True),
          (''raman'', PBool False),
          (''nf_model'', nf_model l),
          (''dual_stage_model'', dual_stage_model l)])))"

text \<open>The sub-structures that name a noise-figure model, in the order the chain tests them.\<close>

definition NF_MODELS :: "string list" where
  "NF_MODELS = [''composite'', ''polynomial-NF'', ''OpenROADM-ILA'', ''OpenROADM-preamp'',
                ''OpenROADM-booster'', ''min-max-NF'', ''raman-approximation'']"

fun type_def_for :: "string \<Rightarrow> string" where
  "type_def_for k =
     (if k = ''composite'' then ''dual_stage''
      else if k = ''polynomial-NF'' then ''advanced_model''
      else if k = ''OpenROADM-ILA'' then ''openroadm''
      else if k = ''OpenROADM-preamp'' then ''openroadm_preamp''
      else if k = ''OpenROADM-booster'' then ''openroadm_booster''
      else if k = ''min-max-NF'' then ''variable_gain''
      else ''advanced_model'')"

definition edfa_two_models :: yang where
  "edfa_two_models = YObj [(''type'', YStr ''C''), (''gain-min'', YNum 10),
     (''composite'', YObj [(''preamp'', YStr ''A''), (''booster'', YStr ''B'')]),
     (''polynomial-NF'', YObj [(''a'', YNum 0), (''b'', YNum 0), (''c'', YNum 0), (''d'', YNum 5)])]"

text \<open>A result that is not the unrecognized-model error.\<close>

definition not_unrecognized :: "error + 'a \<Rightarrow> bool" where
  "not_unrecognized r \<longleftrightarrow> (\<forall>m. r \<noteq> Inl (NotImplementedError m))"

text \<open>
  \<^verbatim>\<open>estimate_nf_model\<close> as the sources have it: \<^verbatim>\<open>gnpy/core/science_utils.py\<close> defines
  no such function, so the call raises.
\<close>

definition no_estimate_nf_model :: "string \<Rightarrow> rat \<Rightarrow> rat \<Rightarrow> rat \<Rightarrow> rat \<Rightarrow> (rat \<times> rat \<times> rat) option" where
  "no_estimate_nf_model name gain_min gain_max nf_min nf_max = None"

definition edfa_no_model :: yang where
  "edfa_no_model = YObj [(''type'', YStr ''A''), (''gain-min'', YNum 10), (''gain-flatmax'', YNum 25),
     (''frequency-min'', YNum (1913 / 10)), (''frequency-max'', YNum (1961 / 10)),
     (''max-power-out'', YNum 21)]"

definition edfa_polynomial :: yang where
  "edfa_polynomial = YObj [(''type'', YStr ''B''), (''gain-min'', YNum 10), (''gain-flatmax'', YNum 25),
     (''frequency-min'', YNum (1913 / 10)), (''frequency-max'', YNum (1961 / 10)),
     (''max-power-out'', YNum 21),
     (''polynomial-NF'', YObj [(''a'', YNum 0), (''b'', YNum 0), (''c'', YNum 0), (''d'', YNum 5)])]"

section \<open>Network elements and the graph\<close>

text \<open>
  The classes of \<^verbatim>\<open>gnpy.core.elements\<close> that the module builds and tests with
  \<^verbatim>\<open>isinstance\<close>; \<open>Other\<close> is any other object a graph may hold.
\<close>

datatype variant = Transceiver | Edfa | Roadm | Fused | Fiber | Other

record location =
  longitude :: rat
  latitude :: rat

text \<open>
  A network element, with the attributes the module passes to the constructors and reads
  back: \<^verbatim>\<open>type_variety\<close> is \<open>None\<close> when the object has no such attribute,
  \<^verbatim>\<open>metadata\<close> is \<open>None\<close> when no location was given, \<^verbatim>\<open>params\<close> and
  \<^verbatim>\<open>operational\<close> hold the attributes of \<^verbatim>\<open>n.params\<close> and \<^verbatim>\<open>n.operational\<close>.
  A Fused element keeps its \<^verbatim>\<open>loss\<close> among its params.
\<close>

record element =
  variant :: variant
  uid :: string
  type_variety :: "string option"
  metadata :: "location option"
  params :: pyobj
  operational :: pyobj

text \<open>
  The directed graph of \<^verbatim>\<open>networkx\<close>: the node objects in insertion order, a node being
  referred to by its position, and the edges \<open>(source, target, weight)\<close> in insertion
  order. \<^verbatim>\<open>add_edge\<close> on an existing edge only rewrites its weight.
\<close>

record network =
  graph_nodes :: "element list"
  graph_edges :: "(nat \<times> nat \<times> rat) list"

definition DiGraph :: network where
  "DiGraph = \<lparr>graph_nodes = [], graph_edges = []\<rparr>"

definition add_node :: "network \<Rightarrow> element \<Rightarrow> network" where
  "add_node g el = g\<lparr>graph_nodes := graph_nodes g @ [el]\<rparr>"

fun set_weight :: "nat \<Rightarrow> nat \<Rightarrow> rat \<Rightarrow> (nat \<times> nat \<times> rat) list \<Rightarrow> (nat \<times> nat \<times> rat) list" where
  "set_weight u v w [] = [(u, v, w)]"
| "set_weight u v w ((u', v', w') # es) =
     (if u' = u \<and> v' = v then (u, v, w) # es else (u', v', w') # set_weight u v w es)"

definition add_edge :: "network \<Rightarrow> nat \<Rightarrow> nat \<Rightarrow> rat \<Rightarrow> network" where
  "add_edge g u v w = g\<lparr>graph_edges := set_weight u v w (graph_edges g)\<rparr>"

text \<open>\<^verbatim>\<open>network.predecessors(n)\<close>, \<^verbatim>\<open>network.successors(n)\<close> and \<^verbatim>\<open>network.edges()\<close>.\<close>

definition predecessors :: "network \<Rightarrow> nat \<Rightarrow> nat list" where
  "predecessors g n = map fst (filter (\<lambda>(u, v, w). v = n) (graph_edges g))"

definition successors :: "network \<Rightarrow> nat \<Rightarrow> nat list" where
  "successors g n = map (\<lambda>(u, v, w). v) (filter (\<lambda>(u, v, w). u = n) (graph_edges g))"

definition edges_view :: "network \<Rightarrow> (nat \<times> nat) list" where
  "edges_view g =
     concat (map (\<lambda>n. map (\<lambda>v. (n, v)) (successors g n)) [0..<length (graph_nodes g)])"

text \<open>The equipment library: a table of records for each kind.\<close>

type_synonym equipment = "(string \<times> (string \<times> pyobj) list) list"

text \<open>\<^verbatim>\<open>equipment[kind][name]\<close>\<close>

definition equipment_entry :: "equipment \<Rightarrow> string \<Rightarrow> string \<Rightarrow> error + pyobj" where
  "equipment_entry equipment kind name =
     (case map_of equipment kind of
        None \<Rightarrow> Inl (KeyError kind)
      | Some table \<Rightarrow>
          (case map_of table name of None \<Rightarrow> Inl (KeyError name) | Some spec \<Rightarrow> Inr spec))"

section \<open>Loading the network\<close>

text \<open>\<^verbatim>\<open>_optional_float\<close>\<close>

definition optional_float :: "yang \<Rightarrow> string \<Rightarrow> pyval \<Rightarrow> error + pyval" where
  "optional_float yangish key default' =
     (if ymem key yangish then ebind (yfloat yangish key) (\<lambda>r. Inr (PNum r)) else Inr default')"

text \<open>The location of a topology node: lines 288 to 295.\<close>

definition node_location :: "yang \<Rightarrow> error + location option" where
  "node_location node =
     (if ymem ''tip-photonic-topology:geo-location'' node then
        ebind (yget node ''tip-photonic-topology:geo-location'') (\<lambda>loc.
        if ymem ''x'' loc \<and> ymem ''y'' loc then
          ebind (yfloat loc ''tip-photonic-topology:x'') (\<lambda>x.
          ebind (yfloat loc ''tip-photonic-topology:y'') (\<lambda>y.
          Inr (Some \<lparr>longitude = x, latitude = y\<rparr>)))
        else Inr None)
      else Inr None)"

text \<open>
  Modelled from the spec: \<^verbatim>\<open>gnpy.core.elements\<close> is not among the sources. A Roadm
  carries a per-next-hop target power map; one built from an equipment record without it
  starts with the empty map.
\<close>

definition roadm_params :: "pyobj \<Rightarrow> pyobj" where
  "roadm_params spec =
     (case map_of spec ''per_degree_pch_out_db'' of
        None \<Rightarrow> spec @ [(''per_degree_pch_out_db'', PDict [])]
      | Some _ \<Rightarrow> spec)"

definition UNRECOGNIZED_NODE :: string where
  "UNRECOGNIZED_NODE = ''Internal error: unrecognized network node''"

definition UNRECOGNIZED_LINK :: string where
  "UNRECOGNIZED_LINK = ''Internal error: unrecognized network link''"

text \<open>The element built for one topology node: lines 298 to 342.\<close>

definition load_element :: "equipment \<Rightarrow> string \<Rightarrow> location option \<Rightarrow> yang \<Rightarrow> error + element" where
  "load_element equipment node_id loc node =
     (if ymem ''tip-photonic-topology:amplifier'' node then
        ebind (yget node ''tip-photonic-topology:amplifier'') (\<lambda>amp.
        ebind (ystr amp ''model'') (\<lambda>tv.
        ebind (equipment_entry equipment ''Edfa'' tv) (\<lambda>spec.
        ebind (optional_float amp ''gain-target'' PNone) (\<lambda>gain_target.
        ebind (optional_float amp ''tilt-target'' (PNum 0)) (\<lambda>tilt_target.
        ebind (optional_float amp ''out-voa-target'' PNone) (\<lambda>out_voa.
        ebind (optional_float amp ''delta-p'' PNone) (\<lambda>delta_p.
        Inr \<lparr>variant = Edfa, uid = node_id, type_variety = Some tv, metadata = loc,
             params = spec,
             operational = [(''gain_target'', gain_target), (''tilt_target'', tilt_target),
                            (''out_voa'', out_voa), (''delta_p'', delta_p)]\<rparr>)))))))
      else if ymem ''tip-photonic-topology:roadm'' node then
        ebind (yget node ''tip-photonic-topology:roadm'') (\<lambda>roadm.
        ebind (ystr roadm ''model'') (\<lambda>tv.
        ebind (equipment_entry equipment ''Roadm'' tv) (\<lambda>spec.
        Inr \<lparr>variant = Roadm, uid = node_id, type_variety = Some tv, metadata = loc,
             params = roadm_params spec, operational = []\<rparr>)))
      else if ymem ''tip-photonic-topology:transceiver'' node then
        ebind (yget node ''tip-photonic-topology:transceiver'') (\<lambda>txp.
        ebind (ystr txp ''model'') (\<lambda>tv.
        Inr \<lparr>variant = Transceiver, uid = node_id, type_variety = Some tv, metadata = loc,
             params = [], operational = []\<rparr>))
      else if ymem ''tip-photonic-topology:attenuator'' node then
        ebind (yget node ''tip-photonic-topology:attenuator'') (\<lambda>att.
        ebind (optional_float att ''attenuation'' PNone) (\<lambda>loss.
        Inr \<lparr>variant = Fused, uid = node_id, type_variety = None, metadata = None,
             params = [(''loss'', loss)], operational = []\<rparr>))
      else Inl (ValueError UNRECOGNIZED_NODE node))"

definition load_node :: "equipment \<Rightarrow> yang \<Rightarrow> error + element" where
  "load_node equipment node =
     ebind (ystr node ''node-id'') (\<lambda>node_id.
     ebind (node_location node) (\<lambda>loc.
     load_element equipment node_id loc node))"

text \<open>
  The state of \<^verbatim>\<open>_load_network\<close>: the graph, the dictionary \<^verbatim>\<open>nodes\<close> from
  identifiers to node objects, and the local variable \<^verbatim>\<open>fiber\<close>, unbound at first.
\<close>

record load_state =
  net_graph :: network
  nodes :: "(string \<times> nat) list"
  fiber :: "yang option"

text \<open>\<^verbatim>\<open>network.add_node(el); nodes[el.uid] = el\<close>\<close>

definition register :: "load_state \<Rightarrow> element \<Rightarrow> load_state" where
  "register st el =
     st\<lparr>net_graph := add_node (net_graph st) el,
        nodes := AList.update (uid el) (length (graph_nodes (net_graph st))) (nodes st)\<rparr>"

fun load_nodes :: "equipment \<Rightarrow> yang list \<Rightarrow> load_state \<Rightarrow> error + load_state" where
  "load_nodes equipment [] st = Inr st"
| "load_nodes equipment (node # rest) st =
     ebind (load_node equipment node) (\<lambda>el. load_nodes equipment rest (register st el))"

text \<open>\<^verbatim>\<open>nodes[key]\<close>\<close>

definition node_ref :: "load_state \<Rightarrow> string \<Rightarrow> error + nat" where
  "node_ref st key = (case map_of (nodes st) key of None \<Rightarrow> Inl (KeyError key) | Some r \<Rightarrow> Inr r)"

text \<open>
  \<^verbatim>\<open>nodes[key].metadata['location']\<close>. What a node built without a location holds there
  is decided by \<^verbatim>\<open>gnpy.core.elements\<close>, which is not among the sources: \<open>dflt\<close> is the
  location such a node gets, \<open>None\<close> if it gets none and the read fails.
\<close>

definition node_metadata_location :: "location option \<Rightarrow> load_state \<Rightarrow> string \<Rightarrow> error + location" where
  "node_metadata_location dflt st key =
     ebind (node_ref st key) (\<lambda>r.
     (case metadata (graph_nodes (net_graph st) ! r) of
        Some l \<Rightarrow> Inr l
      | None \<Rightarrow> (case dflt of Some l \<Rightarrow> Inr l
                 | None \<Rightarrow> Inl (TypeError ''NoneType object is not subscriptable''))))"

definition link_source :: "yang \<Rightarrow> error + string" where
  "link_source link = ebind (yget link ''source'') (\<lambda>s. ystr s ''source-node'')"

definition link_target :: "yang \<Rightarrow> error + string" where
  "link_target link = ebind (yget link ''destination'') (\<lambda>d. ystr d ''dest-node'')"

text \<open>
  Modelled from the spec: \<^verbatim>\<open>gnpy.core.elements\<close> is not among the sources. A Fiber holds
  its length in metres: the constructor converts the \<^verbatim>\<open>length\<close> it is given by its
  \<^verbatim>\<open>length_units\<close> (kilometres here), and the serializer multiplies by \<^verbatim>\<open>1e-3\<close> to
  write kilometres.
\<close>

definition fiber_params :: "pyobj \<Rightarrow> pyobj" where
  "fiber_params ps =
     (case (map_of ps ''length_units'', map_of ps ''length'') of
        (Some (PStr units), Some (PNum len)) \<Rightarrow>
          (if units = ''km'' then AList.update ''length'' (PNum (len * 1000)) ps else ps)
      | _ \<Rightarrow> ps)"

text \<open>The first pass over the links, which creates the Fiber nodes: lines 347 to 380.\<close>

definition load_fiber_node :: "location option \<Rightarrow> equipment \<Rightarrow> yang \<Rightarrow> load_state \<Rightarrow> error + load_state" where
  "load_fiber_node dflt equipment link st =
     ebind (link_source link) (\<lambda>source.
     ebind (link_target link) (\<lambda>target.
     if ymem ''tip-photonic-topology:fiber'' link then
       ebind (yget link ''tip-photonic-topology:fiber'') (\<lambda>fib.
       let st = st\<lparr>fiber := Some fib\<rparr> in
       ebind (yfloat fib ''length'') (\<lambda>len.
       ebind (yfloat fib ''loss-per-km'') (\<lambda>loss_coef.
       ebind (yfloat fib ''attenuation-in'') (\<lambda>att_in.
       ebind (yfloat fib ''conn-att-in'') (\<lambda>con_in.
       ebind (yfloat fib ''conn-att-out'') (\<lambda>con_out.
       ebind (ystr fib ''type'') (\<lambda>tv.
       ebind (equipment_entry equipment ''Fiber'' tv) (\<lambda>specs.
       ebind (getattr specs ''dispersion'') (\<lambda>dispersion.
       ebind (getattr specs ''gamma'') (\<lambda>gamma.
       ebind (getattr specs ''pmd_coef'') (\<lambda>pmd_coef.
       ebind (node_metadata_location dflt st source) (\<lambda>ls1.
       ebind (node_metadata_location dflt st target) (\<lambda>lt1.
       ebind (node_metadata_location dflt st source) (\<lambda>ls2.
       ebind (node_metadata_location dflt st target) (\<lambda>lt2.
       ebind (ystr link ''link-id'') (\<lambda>link_id.
       ebind (ystr fib ''type'') (\<lambda>tv'.
       Inr (register st
         \<lparr>variant = Fiber, uid = link_id, type_variety = Some tv',
          metadata = Some \<lparr>longitude = (longitude ls2 + longitude lt2) / 2,
                           latitude = (latitude ls1 + latitude lt1) / 2\<rparr>,
          params = fiber_params [(''length_units'', PStr ''km''), (''length'', PNum len),
                    (''loss_coef'', PNum loss_coef), (''att_in'', PNum att_in),
                    (''con_in'', PNum con_in), (''con_out'', PNum con_out),
                    (''dispersion'', dispersion), (''gamma'', gamma), (''pmd_coef'', pmd_coef)],
          operational = []\<rparr>))))))))))))))))))
     else if ymem ''tip-photonic-topology:patch'' link then Inr st
     else Inl (ValueError UNRECOGNIZED_LINK link)))"

fun load_fiber_nodes :: "location option \<Rightarrow> equipment \<Rightarrow> yang list \<Rightarrow> load_state \<Rightarrow> error + load_state" where
  "load_fiber_nodes dflt equipment [] st = Inr st"
| "load_fiber_nodes dflt equipment (link # rest) st =
     ebind (load_fiber_node dflt equipment link st) (load_fiber_nodes dflt equipment rest)"

text \<open>
  \<^verbatim>\<open>nodes[source].params.per_degree_pch_out_db[target] = per_degree_power\<close>, on the node
  object that the graph holds.
\<close>

definition set_per_degree :: "load_state \<Rightarrow> nat \<Rightarrow> string \<Rightarrow> rat \<Rightarrow> error + load_state" where
  "set_per_degree st r target per_degree_power =
     (let g = net_graph st; el = graph_nodes g ! r in
      case map_of (params el) ''per_degree_pch_out_db'' of
        Some (PDict d) \<Rightarrow>
          Inr (st\<lparr>net_graph := g\<lparr>graph_nodes := (graph_nodes g)
                 [r := el\<lparr>params := AList.update ''per_degree_pch_out_db''
                                       (PDict (AList.update target (PNum per_degree_power) d)) (params el)\<rparr>]\<rparr>\<rparr>)
      | _ \<Rightarrow> Inl (AttributeError ''per_degree_pch_out_db''))"

text \<open>
  The second pass, which adds the edges: lines 383 to 395. The weight of the edge into a
  Fiber node is read from the variable \<^verbatim>\<open>fiber\<close>, which this loop does not assign.
\<close>

definition load_link_edges :: "yang \<Rightarrow> load_state \<Rightarrow> error + load_state" where
  "load_link_edges link st =
     ebind (link_source link) (\<lambda>source.
     ebind (link_target link) (\<lambda>target.
     if ymem ''tip-photonic-topology:fiber'' link then
       ebind (ystr link ''link-id'') (\<lambda>this_node.
       ebind (node_ref st source) (\<lambda>s.
       ebind (node_ref st this_node) (\<lambda>f.
       ebind (case fiber st of None \<Rightarrow> Inl (UnboundLocalError ''fiber'') | Some fib \<Rightarrow> yfloat fib ''length'') (\<lambda>w.
       let st = st\<lparr>net_graph := add_edge (net_graph st) s f w\<rparr> in
       ebind (node_ref st this_node) (\<lambda>f'.
       ebind (node_ref st target) (\<lambda>t.
       Inr (st\<lparr>net_graph := add_edge (net_graph st) f' t (1 / 100)\<rparr>)))))))
     else if ymem ''tip-photonic-topology:patch'' link then
       ebind (node_ref st source) (\<lambda>s.
       ebind (node_ref st target) (\<lambda>t.
       let st = st\<lparr>net_graph := add_edge (net_graph st) s t (1 / 100)\<rparr> in
       ebind (yget link ''tip-photonic-topology:patch'') (\<lambda>patch.
       if ymem ''roadm-target-egress-per-channel-power'' patch then
         ebind (yfloat patch ''roadm-target-egress-per-channel-power'') (\<lambda>per_degree_power.
         ebind (node_ref st source) (\<lambda>s'.
         set_per_degree st s' target per_degree_power))
       else Inr st)))
     else Inr st))"

fun load_links :: "yang list \<Rightarrow> load_state \<Rightarrow> error + load_state" where
  "load_links [] st = Inr st"
| "load_links (link # rest) st = ebind (load_link_edges link st) (load_links rest)"

text \<open>One round of the loop over the networks of the document.\<close>

definition load_net :: "location option \<Rightarrow> equipment \<Rightarrow> yang \<Rightarrow> load_state \<Rightarrow> error + load_state" where
  "load_net dflt equipment net st =
     (if \<not> ymem ''network-types'' net then Inr st
      else ebind (yget net ''network-types'') (\<lambda>types.
      if \<not> ymem ''tip-photonic-topology:photonic-topology'' types then Inr st
      else
        ebind (ebind (yget net ''ietf-network:node'') yentries) (\<lambda>ns.
        ebind (load_nodes equipment ns st) (\<lambda>st.
        ebind (ebind (yget net ''ietf-network-topology:link'') yentries) (\<lambda>links.
        ebind (load_fiber_nodes dflt equipment links st) (\<lambda>st.
        ebind (ebind (yget net ''ietf-network-topology:link'') yentries) (\<lambda>links'.
        load_links links' st)))))))"

fun load_nets :: "location option \<Rightarrow> equipment \<Rightarrow> yang list \<Rightarrow> load_state \<Rightarrow> error + load_state" where
  "load_nets dflt equipment [] st = Inr st"
| "load_nets dflt equipment (net # rest) st =
     ebind (load_net dflt equipment net st) (load_nets dflt equipment rest)"

text \<open>\<^verbatim>\<open>_load_network\<close>\<close>

definition load_network :: "location option \<Rightarrow> yang \<Rightarrow> equipment \<Rightarrow> error + network" where
  "load_network dflt data equipment =
     ebind (yget data ''ietf-network:networks'') (\<lambda>networks.
     ebind (ebind (yget networks ''ietf-network:network'') yentries) (\<lambda>nets.
     ebind (load_nets dflt equipment nets \<lparr>net_graph = DiGraph, nodes = [], fiber = None\<rparr>) (\<lambda>st.
     Inr (net_graph st))))"

subsection \<open>Classification of topology nodes\<close>

text \<open>The sub-structures that name the kind of a topology node, in the order the chain tests them.\<close>

definition NODE_KINDS :: "string list" where
  "NODE_KINDS = [''tip-photonic-topology:amplifier'', ''tip-photonic-topology:roadm'',
                 ''tip-photonic-topology:transceiver'', ''tip-photonic-topology:attenuator'']"

fun variant_for :: "string \<Rightarrow> variant" where
  "variant_for k =
     (if k = ''tip-photonic-topology:amplifier'' then Edfa
      else if k = ''tip-photonic-topology:roadm'' then Roadm
      else if k = ''tip-photonic-topology:transceiver'' then Transceiver
      else Fused)"

text \<open>A result that is not the unrecognized-node error.\<close>

definition not_unrecognized_node :: "error + 'a \<Rightarrow> bool" where
  "not_unrecognized_node r \<longleftrightarrow> (\<forall>n. r \<noteq> Inl (ValueError UNRECOGNIZED_NODE n))"

subsection \<open>Example equipment and topologies\<close>

definition example_equipment :: equipment where
  "example_equipment =
     [(''Edfa'', [(''std_low_gain'', [(''type_variety'', PStr ''std_low_gain''), (''gain_min'', PNum 8),
                                      (''dual_stage_model'', PNone)])]),
      (''Fiber'', [(''SSMF'', [(''type_variety'', PStr ''SSMF''), (''dispersion'', PNum (167 / 10000000)),
                               (''gamma'', PNum (127 / 100000)), (''pmd_coef'', PNum (1 / 1000000))])]),
      (''Roadm'', [(''R'', [(''target_pch_out_db'', PNum (- 20)), (''add_drop_osnr'', PNum 38),
                            (''pmd'', PNum 0),
                            (''restrictions'', PDict [(''preamp_variety_list'', PList []),
                                                      (''booster_variety_list'', PList [])])])]),
      (''Transceiver'', [(''vendorA_trx-type1'', [(''type_variety'', PStr ''vendorA_trx-type1'')])])]"

definition node_two_kinds :: yang where
  "node_two_kinds = YObj [(''node-id'', YStr ''N1''),
     (''tip-photonic-topology:amplifier'', YObj [(''model'', YStr ''std_low_gain'')]),
     (''tip-photonic-topology:roadm'', YObj [(''model'', YStr ''R'')])]"

definition node_roadm :: "string \<Rightarrow> yang" where
  "node_roadm node_id = YObj [(''node-id'', YStr node_id),
     (''tip-photonic-topology:roadm'', YObj [(''model'', YStr ''R'')])]"

definition fiber_link :: "string \<Rightarrow> string \<Rightarrow> string \<Rightarrow> rat \<Rightarrow> yang" where
  "fiber_link link_id source target len =
     YObj [(''link-id'', YStr link_id),
           (''source'', YObj [(''source-node'', YStr source)]),
           (''destination'', YObj [(''dest-node'', YStr target)]),
           (''tip-photonic-topology:fiber'',
              YObj [(''type'', YStr ''SSMF''), (''length'', YNum len), (''loss-per-km'', YNum (1 / 5)),
                    (''attenuation-in'', YNum 0), (''conn-att-in'', YNum 0), (''conn-att-out'', YNum 0)])]"

text \<open>
  A topology with the ROADMs X, Y and Z and two fiber links: L1 from X to Y of length 80 and
  L2 from Y to Z of length 40.
\<close>

definition two_fiber_doc :: yang where
  "two_fiber_doc =
     YObj [(''ietf-network:networks'', YObj [(''ietf-network:network'', YList [
       YObj [(''network-id'', YStr ''GNPy''),
             (''network-types'', YObj [(''tip-photonic-topology:photonic-topology'', YObj [])]),
             (''ietf-network:node'', YList [node_roadm ''X'', node_roadm ''Y'', node_roadm ''Z'']),
             (''ietf-network-topology:link'',
                YList [fiber_link ''L1'' ''X'' ''Y'' 80, fiber_link ''L2'' ''Y'' ''Z'' 40])]])])]"

definition origin :: location where
  "origin = \<lparr>longitude = 0, latitude = 0\<rparr>"

section \<open>Storing the topology\<close>

text \<open>
  \<^verbatim>\<open>str(x)\<close> as the module uses it, to write a leaf: the text of a number is kept as the
  number it denotes.
\<close>

fun py_str :: "pyval \<Rightarrow> yang" where
  "py_str (PNum r) = YNum r"
| "py_str (PStr s) = YStr s"
| "py_str PNone = YStr ''None''"
| "py_str (PBool b) = YStr (if b then ''True'' else ''False'')"
| "py_str _ = YStr ''<object>''"

text \<open>\<^verbatim>\<open>x * c\<close> and \<^verbatim>\<open>x / c\<close> for a float constant \<open>c\<close>.\<close>

fun py_mul :: "pyval \<Rightarrow> rat \<Rightarrow> error + pyval" where
  "py_mul (PNum r) c = Inr (PNum (r * c))"
| "py_mul (PBool b) c = Inr (PNum ((if b then 1 else 0) * c))"
| "py_mul _ c = Inl (TypeError ''unsupported operand type(s) for *'')"

fun py_div :: "pyval \<Rightarrow> rat \<Rightarrow> error + pyval" where
  "py_div (PNum r) c = Inr (PNum (r / c))"
| "py_div (PBool b) c = Inr (PNum ((if b then 1 else 0) / c))"
| "py_div _ c = Inl (TypeError ''unsupported operand type(s) for /'')"

text \<open>\<^verbatim>\<open>_json_yang_link\<close>\<close>

definition json_yang_link :: "string \<Rightarrow> string \<Rightarrow> string \<Rightarrow> (string \<times> yang) list \<Rightarrow> yang" where
  "json_yang_link link_id source destination extra =
     YObj (fold (\<lambda>(k, v). AList.update k v) extra
       [(''link-id'', YStr link_id),
        (''source'', YObj [(''source-node'', YStr source)]),
        (''destination'', YObj [(''dest-node'', YStr destination)])])"

text \<open>
  The state of \<^verbatim>\<open>_store_topology\<close>: the caller's graph, whose node objects the loop may
  change, and the lists \<^verbatim>\<open>nodes\<close> and \<^verbatim>\<open>links\<close>.
\<close>

record store_state =
  graph :: network
  out_nodes :: "yang list"
  out_links :: "yang list"

text \<open>\<^verbatim>\<open>next(iter(equipment['Transceiver']))\<close>\<close>

definition first_transceiver_type :: "equipment \<Rightarrow> error + string" where
  "first_transceiver_type equipment =
     (case map_of equipment ''Transceiver'' of
        None \<Rightarrow> Inl (KeyError ''Transceiver'')
      | Some [] \<Rightarrow> Inl StopIteration
      | Some ((k, spec) # rest) \<Rightarrow> Inr k)"

text \<open>\<^verbatim>\<open>n.type_variety = ...\<close> on the node object at position \<open>i\<close> of the graph.\<close>

definition set_type_variety :: "network \<Rightarrow> nat \<Rightarrow> string \<Rightarrow> network" where
  "set_type_variety g i k =
     g\<lparr>graph_nodes := (graph_nodes g)[i := (graph_nodes g ! i)\<lparr>type_variety := Some k\<rparr>]\<rparr>"

text \<open>\<^verbatim>\<open>n.type_variety\<close> where the module reads it without testing for it.\<close>

definition read_type_variety :: "element \<Rightarrow> error + string" where
  "read_type_variety n =
     (case type_variety n of None \<Rightarrow> Inl (AttributeError ''type_variety'') | Some tv \<Rightarrow> Inr tv)"

text \<open>The optional leaves of an amplifier node: lines 581 to 588.\<close>

fun amp_targets :: "pyobj \<Rightarrow> (string \<times> string) list \<Rightarrow> error + (string \<times> yang) list" where
  "amp_targets ops [] = Inr []"
| "amp_targets ops ((attr, key) # rest) =
     ebind (getattr ops attr) (\<lambda>v.
     ebind (amp_targets ops rest) (\<lambda>more.
     Inr (if v \<noteq> PNone then (key, py_str v) # more else more)))"

definition NO_TYPE_VARIETY :: string where
  "NO_TYPE_VARIETY = ''Legacy JSON does not specify type_variety for ''"

text \<open>The link entry of a Fiber node: lines 612 to 624.\<close>

definition store_fiber :: "network \<Rightarrow> nat \<Rightarrow> error + yang" where
  "store_fiber g i =
     (let n = graph_nodes g ! i in
      case predecessors g i of
        [] \<Rightarrow> Inl StopIteration
      | ingress_node # _ \<Rightarrow>
         (case successors g i of
            [] \<Rightarrow> Inl StopIteration
          | egress_node # _ \<Rightarrow>
             ebind (read_type_variety n) (\<lambda>tv.
             ebind (getattr (params n) ''length'') (\<lambda>len.
             ebind (py_mul len (1 / 1000)) (\<lambda>len_km.
             ebind (getattr (params n) ''att_in'') (\<lambda>att_in.
             ebind (getattr (params n) ''con_in'') (\<lambda>con_in.
             ebind (getattr (params n) ''con_out'') (\<lambda>con_out.
             Inr (json_yang_link (uid n) (uid (graph_nodes g ! ingress_node))
                    (uid (graph_nodes g ! egress_node))
                    [(''tip-photonic-topology:fiber'',
                        YObj [(''type'', YStr tv), (''length'', py_str len_km),
                              (''attenuation-in'', py_str att_in),
                              (''conn-att-in'', py_str con_in),
                              (''conn-att-out'', py_str con_out)])])))))))))"

text \<open>One round of the loop over \<^verbatim>\<open>network.nodes()\<close>: lines 563 to 626.\<close>

definition store_node :: "equipment \<Rightarrow> nat \<Rightarrow> store_state \<Rightarrow> error option \<times> store_state" where
  "store_node equipment i st =
     (let n = graph_nodes (graph st) ! i in
      case variant n of
        Transceiver \<Rightarrow>
          (case type_variety n of
             None \<Rightarrow>
               (case first_transceiver_type equipment of
                  Inl e \<Rightarrow> (Some e, st)
                | Inr k \<Rightarrow>
                    (None, st\<lparr>graph := set_type_variety (graph st) i k,
                              out_nodes := out_nodes st @
                                [YObj [(''node-id'', YStr (uid n)),
                                       (''tip-photonic-topology:transceiver'', YObj [(''model'', YStr k)])]]\<rparr>))
           | Some tv \<Rightarrow>
               (None, st\<lparr>out_nodes := out_nodes st @
                           [YObj [(''node-id'', YStr (uid n)),
                                  (''tip-photonic-topology:transceiver'', YObj [(''model'', YStr tv)])]]\<rparr>))
      | Edfa \<Rightarrow>
          (case ebind (read_type_variety n) (\<lambda>tv.
                ebind (amp_targets (operational n)
                         [(''gain_target'', ''gain-target''), (''delta_p'', ''delta-p''),
                          (''tilt_target'', ''tilt-target''), (''out_voa'', ''out-voa-target'')]) (\<lambda>targets.
                Inr (YObj [(''node-id'', YStr (uid n)),
                           (''tip-photonic-topology:amplifier'', YObj ((''model'', YStr tv) # targets))]))) of
             Inl e \<Rightarrow> (Some e, st)
           | Inr entry \<Rightarrow> (None, st\<lparr>out_nodes := out_nodes st @ [entry]\<rparr>))
      | Roadm \<Rightarrow>
          (case type_variety n of
             None \<Rightarrow> (Some (NetworkTopologyError (NO_TYPE_VARIETY @ uid n)), st)
           | Some tv \<Rightarrow>
               (case getattr (params n) ''target_pch_out_db'' of
                  Inl e \<Rightarrow> (Some e, st)
                | Inr target \<Rightarrow>
                    (None, st\<lparr>out_nodes := out_nodes st @
                       [YObj [(''node-id'', YStr (uid n)),
                              (''tip-photonic-topology:roadm'',
                                 YObj [(''model'', YStr tv),
                                       (''target-egress-per-channel-power'', py_str target)])]]\<rparr>)))
      | Fused \<Rightarrow>
          (case getattr (params n) ''loss'' of
             Inl e \<Rightarrow> (Some e, st)
           | Inr loss \<Rightarrow>
               (None, st\<lparr>out_nodes := out_nodes st @
                  [YObj [(''node-id'', YStr (uid n)),
                         (''tip-photonic-topology:attenuator'', YObj [(''attenuation'', py_str loss)])]]\<rparr>))
      | Fiber \<Rightarrow>
          (case store_fiber (graph st) i of
             Inl e \<Rightarrow> (Some e, st)
           | Inr link \<Rightarrow> (None, st\<lparr>out_links := out_links st @ [link]\<rparr>))
      | Other \<Rightarrow> (Some (NotImplementedError (''Internal error: unhandled node '' @ uid n)), st))"

fun store_nodes :: "equipment \<Rightarrow> nat list \<Rightarrow> store_state \<Rightarrow> error option \<times> store_state" where
  "store_nodes equipment [] st = (None, st)"
| "store_nodes equipment (i # rest) st =
     (case store_node equipment i st of
        (Some e, st') \<Rightarrow> (Some e, st')
      | (None, st') \<Rightarrow> store_nodes equipment rest st')"

definition FIBER_TO_FIBER :: string where
  "FIBER_TO_FIBER = ''Fiber connected to a Fiber: ''"

text \<open>\<^verbatim>\<open>f'patch{{{edge[0].uid}, {edge[1].uid}}}'\<close>\<close>

definition patch_id :: "string \<Rightarrow> string \<Rightarrow> string" where
  "patch_id a b = ''patch{'' @ a @ '', '' @ b @ ''}''"

text \<open>\<^verbatim>\<open>per_degree_powers.get(next_node_name, default)\<close>\<close>

definition dict_get :: "pyval \<Rightarrow> string \<Rightarrow> pyval \<Rightarrow> error + pyval" where
  "dict_get d key default' =
     (case d of
        PDict m \<Rightarrow> Inr (case map_of m key of None \<Rightarrow> default' | Some v \<Rightarrow> v)
      | _ \<Rightarrow> Inl (AttributeError ''get''))"

text \<open>
  One round of the loop over \<^verbatim>\<open>network.edges()\<close>: lines 628 to 644. The result is the
  link to append, or \<open>None\<close> where the loop goes on without one.
\<close>

definition store_edge :: "element list \<Rightarrow> nat \<times> nat \<Rightarrow> error + yang option" where
  "store_edge ns edge =
     (let e0 = ns ! fst edge; e1 = ns ! snd edge in
      if variant e0 = Fiber then
        (if variant e1 = Fiber
         then Inl (NetworkTopologyError (FIBER_TO_FIBER @ uid e0 @ '', '' @ uid e1))
         else Inr None)
      else if variant e1 = Fiber then Inr None
      else
        ebind (if variant e0 = Roadm then
                 ebind (getattr (params e0) ''per_degree_pch_out_db'') (\<lambda>per_degree_powers.
                 ebind (getattr (params e0) ''target_pch_out_db'') (\<lambda>target.
                 ebind (dict_get per_degree_powers (uid e1) target) (\<lambda>p.
                 Inr [(''roadm-target-egress-per-channel-power'', py_str p)])))
               else Inr []) (\<lambda>patch.
        Inr (Some (json_yang_link (patch_id (uid e0) (uid e1)) (uid e0) (uid e1)
                     [(''tip-photonic-topology:patch'', YObj patch)]))))"

fun store_edges :: "element list \<Rightarrow> (nat \<times> nat) list \<Rightarrow> yang list \<Rightarrow> error + yang list" where
  "store_edges ns [] links = Inr links"
| "store_edges ns (edge # rest) links =
     ebind (store_edge ns edge) (\<lambda>r.
     store_edges ns rest (case r of None \<Rightarrow> links | Some link \<Rightarrow> links @ [link]))"

text \<open>
  \<^verbatim>\<open>_store_topology\<close>: the members of \<^verbatim>\<open>raw\<close> with the networks added, or the exception
  raised, and the caller's graph as the call leaves it.
\<close>

definition store_topology :: "(string \<times> yang) list \<Rightarrow> equipment \<Rightarrow> network \<Rightarrow> (error + (string \<times> yang) list) \<times> network" where
  "store_topology raw equipment g =
     (case store_nodes equipment [0..<length (graph_nodes g)] \<lparr>graph = g, out_nodes = [], out_links = []\<rparr> of
        (Some e, st) \<Rightarrow> (Inl e, graph st)
      | (None, st) \<Rightarrow>
          (case store_edges (graph_nodes (graph st)) (edges_view (graph st)) (out_links st) of
             Inl e \<Rightarrow> (Inl e, graph st)
           | Inr links \<Rightarrow>
               (Inr (AList.update ''ietf-network:networks''
                  (YObj [(''network'', YList [YObj
                     [(''network-id'', YStr ''GNPy''),
                      (''network-types'', YObj [(''tip-photonic-topology:photonic-topology'', YObj [])]),
                      (''node'', YList (out_nodes st)),
                      (''ietf-network-topology:link'', YList links)]])]) raw),
                graph st)))"

subsection \<open>Predicates on stored graphs\<close>





definition is_fiber_link :: "string \<Rightarrow> string \<Rightarrow> string \<Rightarrow> yang \<Rightarrow> bool" where
  "is_fiber_link link_id source target link =
     (yget link ''link-id'' = Inr (YStr link_id) \<and>
      link_source link = Inr source \<and>
      link_target link = Inr target \<and>
      ymem ''tip-photonic-topology:fiber'' link)"

definition fiber_readable :: "element \<Rightarrow> bool" where
  "fiber_readable n =
     (case (type_variety n, map_of (params n) ''length'', map_of (params n) ''att_in'',
            map_of (params n) ''con_in'', map_of (params n) ''con_out'') of
        (Some tv, Some (PNum len), Some a, Some ci, Some co) \<Rightarrow> True
      | _ \<Rightarrow> False)"



subsection \<open>Example graphs\<close>

definition plain_element :: "variant \<Rightarrow> string \<Rightarrow> string option \<Rightarrow> pyobj \<Rightarrow> element" where
  "plain_element v node_id tv ps =
     \<lparr>variant = v, uid = node_id, type_variety = tv, metadata = None, params = ps, operational = []\<rparr>"

definition roadm_ps :: pyobj where
  "roadm_ps = [(''target_pch_out_db'', PNum (- 20)), (''per_degree_pch_out_db'', PDict [(''B'', PNum (- 18))])]"

definition fiber_ps :: pyobj where
  "fiber_ps = [(''length'', PNum 80000), (''att_in'', PNum 0), (''con_in'', PNum (1 / 2)), (''con_out'', PNum (1 / 2))]"

text \<open>A Fiber node F with the two predecessors A and B and the successor C.\<close>

definition graph_two_predecessors :: network where
  "graph_two_predecessors =
     \<lparr>graph_nodes = [plain_element Roadm ''A'' (Some ''R'') roadm_ps,
                      plain_element Roadm ''B'' (Some ''R'') roadm_ps,
                      plain_element Roadm ''C'' (Some ''R'') roadm_ps,
                      plain_element Fiber ''F'' (Some ''SSMF'') fiber_ps],
      graph_edges = [(0, 3, 80), (1, 3, 80), (3, 2, 1 / 100)]\<rparr>"


text \<open>A Fiber node F between the ROADMs A and B.\<close>

definition graph_one_fiber :: network where
  "graph_one_fiber =
     \<lparr>graph_nodes = [plain_element Roadm ''A'' (Some ''R'') roadm_ps,
                      plain_element Roadm ''B'' (Some ''R'') roadm_ps,
                      plain_element Fiber ''F'' (Some ''SSMF'') fiber_ps],
      graph_edges = [(0, 2, 80), (2, 1, 1 / 100)]\<rparr>"

text \<open>A Fiber node F with no edge at all.\<close>

definition graph_lonely_fiber :: network where
  "graph_lonely_fiber =
     \<lparr>graph_nodes = [plain_element Fiber ''F'' (Some ''SSMF'') fiber_ps], graph_edges = []\<rparr>"



section \<open>Storing an amplifier type\<close>

text \<open>A Python value written into the raw structure as it is.\<close>

fun py_raw :: "pyval \<Rightarrow> yang" where
  "py_raw PNone = YNull"
| "py_raw (PBool b) = YBool b"
| "py_raw (PNum r) = YNum r"
| "py_raw (PStr s) = YStr s"
| "py_raw _ = YStr ''<object>''"

text \<open>\<^verbatim>\<open>x[i]\<close> on a tuple or list.\<close>

fun py_index :: "pyval \<Rightarrow> nat \<Rightarrow> error + pyval" where
  "py_index (PList xs) i = (if i < length xs then Inr (xs ! i) else Inl (IndexError ''index out of range''))"
| "py_index _ i = Inl (TypeError ''object is not subscriptable'')"

definition str_coefficients :: "pyval \<Rightarrow> error + (string \<times> yang) list" where
  "str_coefficients coef =
     ebind (py_index coef 0) (\<lambda>a. ebind (py_index coef 1) (\<lambda>b.
     ebind (py_index coef 2) (\<lambda>c. ebind (py_index coef 3) (\<lambda>d.
     Inr [(''a'', py_str a), (''b'', py_str b), (''c'', py_str c), (''d'', py_str d)]))))"

text \<open>
  The \<^verbatim>\<open>isinstance\<close> chain of \<^verbatim>\<open>_store_equipment_edfa\<close> over \<^verbatim>\<open>edfa.nf_model\<close>: the
  members it adds to the entry (none when no branch applies).
\<close>

definition store_nf_model :: "pyobj \<Rightarrow> pyval \<Rightarrow> error + (string \<times> yang) list" where
  "store_nf_model edfa nfm =
     (case nfm of
        Model_fg nf0 \<Rightarrow>
          Inr (if nf0 < 3 then [(''raman-approximation'', YObj [(''nf'', YNum nf0)])]
               else [(''polynomial-NF'', YObj [(''a'', YNum 0), (''b'', YNum 0), (''c'', YNum 0),
                                              (''d'', YNum nf0)])])
      | Model_vg nf1 nf2 delta_p orig_nf_min orig_nf_max \<Rightarrow>
          Inr [(''min-max-NF'', YObj [(''nf-min'', YNum orig_nf_min), (''nf-max'', YNum orig_nf_max)])]
      | Model_openroadm_ila nf_coef \<Rightarrow>
          ebind (str_coefficients (PList (map PNum nf_coef))) (\<lambda>cs. Inr [(''OpenROADM-ILA'', YObj cs)])
      | Model_openroadm_preamp \<Rightarrow> Inr [(''OpenROADM-preamp'', YObj [])]
      | Model_openroadm_booster \<Rightarrow> Inr [(''OpenROADM-booster'', YObj [])]
      | _ \<Rightarrow>
          ebind (getattr edfa ''type_def'') (\<lambda>td.
          if td = PStr ''advanced_model'' then
            ebind (getattr edfa ''nf_fit_coeff'') (\<lambda>coef.
            ebind (str_coefficients coef) (\<lambda>cs. Inr [(''polynomial-NF'', YObj cs)]))
          else Inr []))"

text \<open>\<^verbatim>\<open>_store_equipment_edfa\<close>\<close>

definition store_equipment_edfa :: "string \<Rightarrow> pyobj \<Rightarrow> error + yang" where
  "store_equipment_edfa name edfa =
     ebind (getattr edfa ''gain_min'') (\<lambda>gain_min.
     ebind (getattr edfa ''dual_stage_model'') (\<lambda>dsm.
     if dsm \<noteq> PNone then
       (case dsm of
          Model_dual_stage preamp_variety booster_variety \<Rightarrow>
            Inr (YObj [(''type'', YStr name), (''gain-min'', py_str gain_min),
                       (''composite'', YObj [(''preamp'', YStr preamp_variety),
                                             (''booster'', YStr booster_variety)])])
        | _ \<Rightarrow> Inl (AttributeError ''preamp_variety''))
     else
       ebind (ebind (getattr edfa ''f_min'') (\<lambda>v. py_div v THZ)) (\<lambda>fmin.
       ebind (ebind (getattr edfa ''f_max'') (\<lambda>v. py_div v THZ)) (\<lambda>fmax.
       ebind (getattr edfa ''gain_flatmax'') (\<lambda>flatmax.
       ebind (getattr edfa ''p_max'') (\<lambda>pmax.
       ebind (getattr edfa ''out_voa_auto'') (\<lambda>voa.
       ebind (getattr edfa ''nf_model'') (\<lambda>nfm.
       ebind (store_nf_model edfa nfm) (\<lambda>model.
       Inr (YObj ([(''type'', YStr name), (''gain-min'', py_str gain_min),
                   (''frequency-min'', py_str fmin), (''frequency-max'', py_str fmax),
                   (''gain-flatmax'', py_str flatmax), (''max-power-out'', py_str pmax),
                   (''has-output-voa'', py_raw voa)] @ model)))))))))))"

text \<open>
  An amplifier type with a fitted noise figure that is not allowed for automatic design and
  has an output attenuator.
\<close>

definition amp_not_for_design :: pyobj where
  "amp_not_for_design =
     [(''type_variety'', PStr ''A''), (''type_def'', PStr ''advanced_model''),
      (''f_min'', PNum 191300000000000), (''f_max'', PNum 196100000000000),
      (''gain_min'', PNum 15), (''gain_flatmax'', PNum 25), (''p_max'', PNum 21),
      (''nf_fit_coeff'', PList [PNum 0, PNum 0, PNum 0, PNum 5]),
      (''nf_ripple'', PList [PNum 0]), (''dgt'', PList [PNum 0]), (''gain_ripple'', PList [PNum 0]),
      (''out_voa_auto'', PBool True), (''allowed_for_design'', PBool False), (''raman'', PBool False),
      (''nf_model'', PNone), (''dual_stage_model'', PNone)]"

subsection \<open>Composites resolved before an error\<close>

text \<open>
  The record under the name \<open>k\<close> as it stood when an entry was processed: as the call
  leaves it (\<open>amps'\<close>) if \<open>k\<close> is among the entries processed earlier, else as the call
  found it (\<open>amps\<close>).
\<close>

definition stage_record :: "amps \<Rightarrow> amps \<Rightarrow> (string \<times> pyobj) list \<Rightarrow> string \<Rightarrow> pyobj" where
  "stage_record amps amps' earlier k =
     the (map_of (if k \<in> fst ` set earlier then amps' else amps) k)"

text \<open>
  An entry \<open>(n, a)\<close> of the table the call found, as the call leaves it: a composite holds
  its own attributes and a copy of every attribute of its preamp under the prefix
  \<^verbatim>\<open>preamp_\<close> and of its booster under \<^verbatim>\<open>booster_\<close>; any other entry is as it was.
\<close>

definition resolved_entry :: "amps \<Rightarrow> amps \<Rightarrow> (string \<times> pyobj) list \<Rightarrow> string \<times> pyobj \<Rightarrow> bool" where
  "resolved_entry amps amps' earlier entry =
     (case map_of (snd entry) ''dual_stage_model'' of
        Some (Model_dual_stage p b) \<Rightarrow>
          map_of amps' (fst entry) =
            Some (copy_attrs ''booster_'' (stage_record amps amps' earlier b)
                   (copy_attrs ''preamp_'' (stage_record amps amps' earlier p) (snd entry)))
      | _ \<Rightarrow> map_of amps' (fst entry) = Some (snd entry))"

definition resolved_prefix :: "amps \<Rightarrow> amps \<Rightarrow> (string \<times> pyobj) list \<Rightarrow> bool" where
  "resolved_prefix amps amps' before =
     (\<forall>i < length before. resolved_entry amps amps' (take i before) (before ! i))"

text \<open>Nodes with a geo-location, whose members are held under their local names.\<close>

definition node_located_no_kind :: yang where
  "node_located_no_kind = YObj [(''node-id'', YStr ''N2''),
     (''tip-photonic-topology:geo-location'', YObj [(''x'', YNum 2), (''y'', YNum 48)])]"

definition node_located_roadm :: yang where
  "node_located_roadm = YObj [(''node-id'', YStr ''Y''),
     (''tip-photonic-topology:geo-location'', YObj [(''x'', YNum 2), (''y'', YNum 48)]),
     (''tip-photonic-topology:roadm'', YObj [(''model'', YStr ''R'')])]"

section \<open>Properties of dual-stage resolution\<close>

lemma map_of_fold_update:
  "map_of (fold (\<lambda>attr obj. AList.update (pre @ attr) (f attr) obj) ks x) k' =
     (if k' \<in> (\<lambda>k. pre @ k) ` set ks then Some (f (drop (length pre) k')) else map_of x k')"
proof (induction ks arbitrary: x)
  case Nil
  then show ?case by simp
next
  case (Cons k ks)
  then show ?case by (auto simp: update_conv')
qed

lemma map_of_copy_attrs:
  "map_of (copy_attrs pre src x) k' =
     (if k' \<in> (\<lambda>k. pre @ k) ` fst ` set src then Some (the (map_of src (drop (length pre) k'))) else map_of x k')"
  unfolding copy_attrs_def setattr_def by (simp add: map_of_fold_update)

lemma fold_update_triv:
  "\<forall>k \<in> set ks. map_of x (pre @ k) = Some (f k) \<Longrightarrow>
   fold (\<lambda>attr obj. AList.update (pre @ attr) (f attr) obj) ks x = x"
  by (induction ks) (simp_all add: update_triv)

lemma copy_attrs_triv:
  "\<forall>k \<in> fst ` set src. map_of x (pre @ k) = Some (the (map_of src k)) \<Longrightarrow> copy_attrs pre src x = x"
  unfolding copy_attrs_def setattr_def by (rule fold_update_triv) simp

lemma map_fst_copy_attrs_dsm:
  "hd pre \<noteq> CHR ''d'' \<Longrightarrow> pre \<noteq> [] \<Longrightarrow> map_of (copy_attrs pre src x) ''dual_stage_model'' = map_of x ''dual_stage_model''"
  by (cases pre) (auto simp: map_of_copy_attrs)

lemma copy_idem:
  "copy_attrs ''booster_'' ba (copy_attrs ''preamp_'' pa (copy_attrs ''booster_'' ba (copy_attrs ''preamp_'' pa a)))
   = copy_attrs ''booster_'' ba (copy_attrs ''preamp_'' pa a)"
proof -
  let ?a1 = "copy_attrs ''booster_'' ba (copy_attrs ''preamp_'' pa a)"
  have 1: "copy_attrs ''preamp_'' pa ?a1 = ?a1"
    by (rule copy_attrs_triv) (auto simp: map_of_copy_attrs)
  have 2: "copy_attrs ''booster_'' ba ?a1 = ?a1"
    by (rule copy_attrs_triv) (auto simp: map_of_copy_attrs)
  show ?thesis by (simp add: 1 2)
qed

lemma entry_flat_cases:
  assumes "entry_flat T a"
  obtains "is_plain a"
  | p b pa ba where "map_of a ''dual_stage_model'' = Some (Model_dual_stage p b)"
      "map_of T p = Some pa" "is_plain pa" "map_of T b = Some ba" "is_plain ba"
  using assms unfolding entry_flat_def is_plain_def
  by (auto split: option.splits pyval.splits)

lemma dsm_copy [simp]:
  "map_of (copy_attrs ''booster_'' ba x) ''dual_stage_model'' = map_of x ''dual_stage_model''"
  "map_of (copy_attrs ''preamp_'' pa x) ''dual_stage_model'' = map_of x ''dual_stage_model''"
  by (auto simp: map_of_copy_attrs)

lemma keeps_plain: "keeps T s \<Longrightarrow> map_of T n = Some a \<Longrightarrow> is_plain a \<Longrightarrow> map_of s n = Some a"
  unfolding keeps_def by blast

lemma resolved_fixed:
  assumes "keeps T s" "resolved T s n"
  shows "fixup_entry n s = (None, s)"
proof -
  from assms(2) obtain a' where a': "map_of s n = Some a'"
    and alt: "is_plain a' \<or> (\<exists>p b pa ba. map_of a' ''dual_stage_model'' = Some (Model_dual_stage p b)
          \<and> map_of T p = Some pa \<and> is_plain pa \<and> map_of T b = Some ba \<and> is_plain ba
          \<and> copy_attrs ''booster_'' ba (copy_attrs ''preamp_'' pa a') = a')"
    unfolding resolved_def by blast
  from alt show ?thesis
  proof
    assume "is_plain a'"
    then show ?thesis using a' by (simp add: fixup_entry_def is_plain_def)
  next
    assume "\<exists>p b pa ba. map_of a' ''dual_stage_model'' = Some (Model_dual_stage p b)
          \<and> map_of T p = Some pa \<and> is_plain pa \<and> map_of T b = Some ba \<and> is_plain ba
          \<and> copy_attrs ''booster_'' ba (copy_attrs ''preamp_'' pa a') = a'"
    then obtain p b pa ba where d: "map_of a' ''dual_stage_model'' = Some (Model_dual_stage p b)"
      and p: "map_of T p = Some pa" "is_plain pa" and b: "map_of T b = Some ba" "is_plain ba"
      and fx: "copy_attrs ''booster_'' ba (copy_attrs ''preamp_'' pa a') = a'" by blast
    have sp: "map_of s p = Some pa" using keeps_plain[OF assms(1) p] .
    have sb: "map_of s b = Some ba" using keeps_plain[OF assms(1) b] .
    have "p \<noteq> n" using sp a' d p(2) by (auto simp: is_plain_def)
    moreover have "b \<noteq> n" using sb a' d b(2) by (auto simp: is_plain_def)
    ultimately show ?thesis using a' d sp sb fx
      by (simp add: fixup_entry_def update_triv)
  qed
qed

lemma keeps_update:
  assumes "keeps T s" "map_of s n = Some a0"
    "map_of a1 ''dual_stage_model'' = map_of a0 ''dual_stage_model''"
    "map_of a0 ''dual_stage_model'' \<noteq> Some PNone"
  shows "keeps T (AList.update n a1 s)"
  unfolding keeps_def
proof (intro allI impI)
  fix m a assume m: "map_of T m = Some a"
  from assms(1) m obtain a' where a': "map_of s m = Some a'"
    "map_of a' ''dual_stage_model'' = map_of a ''dual_stage_model''" "is_plain a \<longrightarrow> a' = a"
    unfolding keeps_def by blast
  show "\<exists>a'. map_of (AList.update n a1 s) m = Some a' \<and>
            map_of a' ''dual_stage_model'' = map_of a ''dual_stage_model'' \<and> (is_plain a \<longrightarrow> a' = a)"
  proof (cases "m = n")
    case True
    then have "a' = a0" using a' assms(2) by simp
    then have "\<not> is_plain a" using a'(2) assms(4) by (simp add: is_plain_def)
    then show ?thesis using True a' assms(3) \<open>a' = a0\<close> by (simp add: update_conv')
  next
    case False
    then show ?thesis using a' by (simp add: update_conv')
  qed
qed

lemma fixup_entry_step:
  assumes fl: "flat_amps T" and k: "keeps T s" and n: "n \<in> fst ` set T"
  shows "\<exists>s'. fixup_entry n s = (None, s') \<and> keeps T s' \<and> resolved T s' n
           \<and> (\<forall>m. resolved T s m \<longrightarrow> resolved T s' m) \<and> map fst s' = map fst s"
proof -
  from n obtain a where a: "map_of T n = Some a"
    by (metis domD dom_map_of_conv_image_fst)
  then have "(n, a) \<in> set T" by (rule map_of_SomeD)
  with fl have ef: "entry_flat T a" by (auto simp: flat_amps_def list_all_iff)
  from k a obtain a' where a': "map_of s n = Some a'"
    "map_of a' ''dual_stage_model'' = map_of a ''dual_stage_model''" "is_plain a \<longrightarrow> a' = a"
    unfolding keeps_def by blast
  from ef show ?thesis
  proof (cases rule: entry_flat_cases)
    case 1
    then have "is_plain a'" using a' by simp
    then have r: "resolved T s n" using a' unfolding resolved_def by blast
    then have "fixup_entry n s = (None, s)" using resolved_fixed[OF k] by blast
    then show ?thesis using k r by blast
  next
    case (2 p b pa ba)
    have sp: "map_of s p = Some pa" using keeps_plain[OF k 2(2,3)] .
    have sb: "map_of s b = Some ba" using keeps_plain[OF k 2(4,5)] .
    have d: "map_of a' ''dual_stage_model'' = Some (Model_dual_stage p b)" using a' 2(1) by simp
    have pn: "p \<noteq> n" using sp a' d 2(3) by (auto simp: is_plain_def)
    have bn: "b \<noteq> n" using sb a' d 2(5) by (auto simp: is_plain_def)
    let ?a1 = "copy_attrs ''booster_'' ba (copy_attrs ''preamp_'' pa a')"
    let ?s' = "AList.update n ?a1 s"
    have step: "fixup_entry n s = (None, ?s')"
      using a'(1) d sp sb pn bn by (simp add: fixup_entry_def)
    have k': "keeps T ?s'"
      by (rule keeps_update[OF k a'(1)]) (simp_all add: d)
    have r': "resolved T ?s' n"
      unfolding resolved_def using d 2 by (auto simp: update_conv' copy_idem)
    have pres: "\<forall>m. resolved T s m \<longrightarrow> resolved T ?s' m"
    proof (intro allI impI)
      fix m assume "resolved T s m"
      then show "resolved T ?s' m"
        using r' by (cases "m = n") (auto simp: resolved_def update_conv')
    qed
    have "n \<in> fst ` set s" using a'(1) by (metis domI dom_map_of_conv_image_fst)
    then have "map fst ?s' = map fst s"
      by (simp add: update_keys)
    show ?thesis using step k' r' pres \<open>map fst ?s' = map fst s\<close> by blast
  qed
qed

lemma fixup_loop_flat:
  assumes "flat_amps T"
  shows "keeps T s \<Longrightarrow> set ns \<subseteq> fst ` set T \<Longrightarrow>
         \<exists>s'. fixup_loop ns s = (None, s') \<and> keeps T s'
           \<and> (\<forall>m. m \<in> set ns \<or> resolved T s m \<longrightarrow> resolved T s' m) \<and> map fst s' = map fst s"
proof (induction ns arbitrary: s)
  case Nil
  then show ?case by simp
next
  case (Cons n ns)
  from Cons.prems have n: "n \<in> fst ` set T" by simp
  from fixup_entry_step[OF assms Cons.prems(1) n] obtain s1 where
    s1: "fixup_entry n s = (None, s1)" "keeps T s1" "resolved T s1 n"
        "\<forall>m. resolved T s m \<longrightarrow> resolved T s1 m" "map fst s1 = map fst s"
    by blast
  from Cons.prems have "set ns \<subseteq> fst ` set T" by simp
  from Cons.IH[OF s1(2) this] obtain s2 where
    s2: "fixup_loop ns s1 = (None, s2)" "keeps T s2"
        "\<forall>m. m \<in> set ns \<or> resolved T s1 m \<longrightarrow> resolved T s2 m" "map fst s2 = map fst s1"
    by blast
  have "fixup_loop (n # ns) s = (None, s2)" using s1(1) s2(1) by simp
  moreover have "\<forall>m. m \<in> set (n # ns) \<or> resolved T s m \<longrightarrow> resolved T s2 m"
    using s1(3,4) s2(3) by auto
  ultimately show ?case using s2(2,4) s1(5) by auto
qed

lemma fixup_loop_fixed:
  "\<forall>n \<in> set ns. fixup_entry n s = (None, s) \<Longrightarrow> fixup_loop ns s = (None, s)"
  by (induction ns) simp_all

lemma keeps_refl: "keeps T T"
  unfolding keeps_def by simp

lemma in_keys_map_of: "k \<in> fst ` set al \<Longrightarrow> \<exists>v. map_of al k = Some v"
  by (metis domD dom_map_of_conv_image_fst)

lemma map_of_in_keys: "map_of al k = Some v \<Longrightarrow> k \<in> fst ` set al"
  by (metis domI dom_map_of_conv_image_fst)

text \<open>
  Claim C6. Over an amplifier table whose composites reference only non-composite entries,
  dual-stage resolution is idempotent: it returns without raising, and resolving the table
  it returns gives that same table again, so every composite record carries the same
  \<^verbatim>\<open>preamp_\<close>- and \<^verbatim>\<open>booster_\<close>-prefixed attributes after two rounds as after one.
\<close>

theorem fixup_dual_stage_idempotent:
  assumes "flat_amps amps"
  shows "\<exists>amps1. fixup_dual_stage amps = (None, amps1) \<and> fixup_dual_stage amps1 = (None, amps1)"
proof -
  from fixup_loop_flat[OF assms keeps_refl, of "map fst amps"] obtain s1 where
    s1: "fixup_loop (map fst amps) amps = (None, s1)" "keeps amps s1"
        "\<forall>m. m \<in> set (map fst amps) \<or> resolved amps amps m \<longrightarrow> resolved amps s1 m"
        "map fst s1 = map fst amps"
    by auto
  have "\<forall>n \<in> set (map fst s1). fixup_entry n s1 = (None, s1)"
    using s1(3,4) resolved_fixed[OF s1(2)] by simp
  then have "fixup_loop (map fst s1) s1 = (None, s1)" by (rule fixup_loop_fixed)
  then show ?thesis using s1(1) by (auto simp: fixup_dual_stage_def)
qed

theorem fixup_dual_stage_idempotent_witness:
  "flat_amps amps_resolvable \<and>
   fixup_dual_stage amps_resolvable =
     (None, [(''A'', amp_A), (''B'', amp_B),
             (''C'', amp_C @ [(''preamp_type_variety'', PStr ''A''), (''preamp_nf0'', PNum 5),
                              (''preamp_dual_stage_model'', PNone),
                              (''booster_type_variety'', PStr ''B''), (''booster_nf0'', PNum 6),
                              (''booster_dual_stage_model'', PNone)])]) \<and>
   (\<exists>amps1. fixup_dual_stage amps_resolvable = (None, amps1) \<and>
            fixup_dual_stage amps1 = (None, amps1))"
proof -
  have flat: "flat_amps amps_resolvable"
    by (simp add: flat_amps_def entry_flat_def is_plain_def amps_resolvable_def
        amp_A_def amp_B_def amp_C_def)
  have run: "fixup_dual_stage amps_resolvable =
     (None, [(''A'', amp_A), (''B'', amp_B),
             (''C'', amp_C @ [(''preamp_type_variety'', PStr ''A''), (''preamp_nf0'', PNum 5),
                              (''preamp_dual_stage_model'', PNone),
                              (''booster_type_variety'', PStr ''B''), (''booster_nf0'', PNum 6),
                              (''booster_dual_stage_model'', PNone)])])"
    by (simp add: fixup_dual_stage_def fixup_entry_def amps_resolvable_def
        amp_A_def amp_B_def amp_C_def copy_attrs_def setattr_def)
  show ?thesis using flat run fixup_dual_stage_idempotent [OF flat] by simp
qed

lemma resolved_entry_cong:
  assumes "\<forall>m \<in> insert (fst entry) (fst ` set earlier). map_of s' m = map_of s m"
  shows "resolved_entry T s' earlier entry = resolved_entry T s earlier entry"
proof -
  have "stage_record T s' earlier k = stage_record T s earlier k" for k
  proof (cases "k \<in> fst ` set earlier")
    case True
    then have "map_of s' k = map_of s k" using assms by blast
    then show ?thesis using True by (simp add: stage_record_def)
  next
    case False
    then show ?thesis by (simp add: stage_record_def)
  qed
  moreover have "map_of s' (fst entry) = map_of s (fst entry)" using assms by simp
  ultimately show ?thesis
    by (simp add: resolved_entry_def split: option.splits pyval.splits)
qed

lemma resolved_prefix_cong:
  assumes "\<forall>m \<in> fst ` set done. map_of s' m = map_of s m" and "resolved_prefix T s done"
  shows "resolved_prefix T s' done"
  unfolding resolved_prefix_def
proof (intro allI impI)
  fix i assume i: "i < length done"
  have "fst (done ! i) \<in> fst ` set done" using i by simp
  moreover have "fst ` set (take i done) \<subseteq> fst ` set done"
    by (meson image_mono set_take_subset)
  ultimately have "insert (fst (done ! i)) (fst ` set (take i done)) \<subseteq> fst ` set done"
    by blast
  then have "\<forall>m \<in> insert (fst (done ! i)) (fst ` set (take i done)). map_of s' m = map_of s m"
    using assms(1) by blast
  from resolved_entry_cong[OF this] assms(2) i
  show "resolved_entry T s' (take i done) (done ! i)" by (simp add: resolved_prefix_def)
qed

lemma resolved_prefix_snoc:
  assumes "resolved_prefix T s done" "resolved_entry T s done entry"
  shows "resolved_prefix T s (done @ [entry])"
  unfolding resolved_prefix_def
proof (intro allI impI)
  fix i assume "i < length (done @ [entry])"
  then consider "i < length done" | "i = length done" by fastforce
  then show "resolved_entry T s (take i (done @ [entry])) ((done @ [entry]) ! i)"
  proof cases
    case 1
    then show ?thesis using assms(1) by (simp add: resolved_prefix_def nth_append)
  next
    case 2
    then show ?thesis using assms(2) by simp
  qed
qed

lemma resolving_step:
  assumes keys: "map fst s = map fst T"
    and fresh: "\<forall>m. m \<notin> fst ` set done \<longrightarrow> map_of s m = map_of T m"
    and pre: "resolved_prefix T s done"
    and n: "map_of T n = Some a" "n \<notin> fst ` set done"
    and p: "passes T n a"
  shows "\<exists>s'. fixup_entry n s = (None, s') \<and> map fst s' = map fst T
           \<and> (\<forall>m. m \<notin> fst ` set (done @ [(n, a)]) \<longrightarrow> map_of s' m = map_of T m)
           \<and> resolved_prefix T s' (done @ [(n, a)])"
proof -
  have sn: "map_of s n = Some a" using fresh n by simp
  have kset: "fst ` set s = fst ` set T" using keys by (metis list.set_map)
  show ?thesis
  proof (cases "map_of a ''dual_stage_model'' = Some PNone")
    case True
    then have "fixup_entry n s = (None, s)" using sn by (simp add: fixup_entry_def)
    moreover have "resolved_entry T s done (n, a)" using True sn by (simp add: resolved_entry_def)
    then have "resolved_prefix T s (done @ [(n, a)])" using pre by (rule resolved_prefix_snoc[rotated])
    ultimately show ?thesis using keys fresh by auto
  next
    case False
    with p obtain pv bv where d: "map_of a ''dual_stage_model'' = Some (Model_dual_stage pv bv)"
      and in_T: "pv \<in> fst ` set T" "bv \<in> fst ` set T" and ne: "pv \<noteq> n" "bv \<noteq> n"
      unfolding passes_def by (auto split: option.splits pyval.splits)
    from in_T kset obtain pa ba where sp: "map_of s pv = Some pa" and sb: "map_of s bv = Some ba"
      using in_keys_map_of[of pv s] in_keys_map_of[of bv s] by auto
    let ?a1 = "copy_attrs ''booster_'' ba (copy_attrs ''preamp_'' pa a)"
    let ?s' = "AList.update n ?a1 s"
    have step: "fixup_entry n s = (None, ?s')"
      using sn d sp sb ne by (simp add: fixup_entry_def)
    have "n \<in> fst ` set s" using sn by (rule map_of_in_keys)
    then have "map fst ?s' = map fst s" by (simp add: update_keys)
    then have k': "map fst ?s' = map fst T" using keys by simp
    have other: "\<forall>m. m \<noteq> n \<longrightarrow> map_of ?s' m = map_of s m" by (simp add: update_conv')
    have fresh': "\<forall>m. m \<notin> fst ` set (done @ [(n, a)]) \<longrightarrow> map_of ?s' m = map_of T m"
      using other fresh by auto
    have pre': "resolved_prefix T ?s' done"
      using other n(2) by (intro resolved_prefix_cong[OF _ pre]) auto
    have stp: "stage_record T ?s' done pv = pa"
      using sp other ne(1) fresh by (auto simp: stage_record_def)
    have stb: "stage_record T ?s' done bv = ba"
      using sb other ne(2) fresh by (auto simp: stage_record_def)
    have "resolved_entry T ?s' done (n, a)"
      using d stp stb by (simp add: resolved_entry_def update_conv')
    then have "resolved_prefix T ?s' (done @ [(n, a)])" using pre' by (rule resolved_prefix_snoc[rotated])
    then show ?thesis using step k' fresh' by blast
  qed
qed

lemma resolving_loop:
  assumes dist: "distinct (map fst T)"
  shows "T = done @ todo @ rest \<Longrightarrow> list_all (\<lambda>(n, a). passes T n a) todo \<Longrightarrow>
         map fst s = map fst T \<Longrightarrow>
         (\<forall>m. m \<notin> fst ` set done \<longrightarrow> map_of s m = map_of T m) \<Longrightarrow>
         resolved_prefix T s done \<Longrightarrow>
         \<exists>s'. fixup_loop (map fst todo @ names) s = fixup_loop names s' \<and> map fst s' = map fst T
           \<and> (\<forall>m. m \<notin> fst ` set (done @ todo) \<longrightarrow> map_of s' m = map_of T m)
           \<and> resolved_prefix T s' (done @ todo)"
proof (induction todo arbitrary: "done" s)
  case Nil
  then show ?case by auto
next
  case (Cons entry todo)
  obtain n a where entry: "entry = (n, a)" by (cases entry)
  have T: "T = done @ (n, a) # todo @ rest" using Cons.prems(1) entry by simp
  have "(n, a) \<in> set T" using T by simp
  then have na: "map_of T n = Some a" using dist by simp
  have nd: "n \<notin> fst ` set done" using dist T by auto
  have pn: "passes T n a" using Cons.prems(2) entry by simp
  from resolving_step[OF Cons.prems(3,4,5) na nd pn] obtain s1 where
    s1: "fixup_entry n s = (None, s1)" "map fst s1 = map fst T"
        "\<forall>m. m \<notin> fst ` set (done @ [(n, a)]) \<longrightarrow> map_of s1 m = map_of T m"
        "resolved_prefix T s1 (done @ [(n, a)])" by blast
  have T': "T = (done @ [(n, a)]) @ todo @ rest" using T by simp
  have rest: "list_all (\<lambda>(n, a). passes T n a) todo" using Cons.prems(2) by simp
  from Cons.IH[OF T' rest s1(2,3,4)] obtain s2 where
    s2: "fixup_loop (map fst todo @ names) s1 = fixup_loop names s2" "map fst s2 = map fst T"
        "\<forall>m. m \<notin> fst ` set ((done @ [(n, a)]) @ todo) \<longrightarrow> map_of s2 m = map_of T m"
        "resolved_prefix T s2 ((done @ [(n, a)]) @ todo)" by blast
  have "fixup_loop (map fst (entry # todo) @ names) s = fixup_loop names s2"
    using s1(1) s2(1) entry by simp
  then show ?case using s2(2,3,4) entry by auto
qed

text \<open>
  Claim C3, as amended. Let a composite entry name a preamp or booster type that is not a key
  of the table, and let every entry before it in table order pass (plain, or a composite
  whose two names are keys and not its own name). Then the resolver raises
  \<^verbatim>\<open>KeyError\<close> for the missing name (the preamp's if both are missing), the table keeps its
  keys, and the failing entry, every entry after it and every plain entry are unchanged.
  Every composite before the failing entry has been resolved in place: it holds its own
  attributes and a copy of every attribute of its preamp under \<^verbatim>\<open>preamp_\<close> and of its
  booster under \<^verbatim>\<open>booster_\<close>, taken from those records as they stood when the composite
  was processed.
\<close>

theorem fixup_dual_stage_unresolved:
  assumes dist: "distinct (map fst amps)"
    and split: "amps = before @ (name, amp) # after"
    and before: "list_all (\<lambda>(n, a). passes amps n a) before"
    and comp: "map_of amp ''dual_stage_model'' = Some (Model_dual_stage p b)"
    and missing: "p \<notin> fst ` set amps \<or> b \<notin> fst ` set amps"
  shows "\<exists>amps'. fixup_dual_stage amps =
             (Some (KeyError (if p \<notin> fst ` set amps then p else b)), amps')
           \<and> map fst amps' = map fst amps
           \<and> (\<forall>(n, a) \<in> set ((name, amp) # after). map_of amps' n = Some a)
           \<and> (\<forall>(n, a) \<in> set amps. is_plain a \<longrightarrow> map_of amps' n = Some a)
           \<and> resolved_prefix amps amps' before"
proof -
  have look: "\<And>n a. (n, a) \<in> set amps \<Longrightarrow> map_of amps n = Some a"
    using dist by simp
  have T: "amps = [] @ before @ ((name, amp) # after)" using split by simp
  have r0: "resolved_prefix amps amps []" by (simp add: resolved_prefix_def)
  from resolving_loop[OF dist T before refl _ r0, of "name # map fst after"] obtain s where
    s: "fixup_loop (map fst before @ name # map fst after) amps = fixup_loop (name # map fst after) s"
       "map fst s = map fst amps"
       "\<forall>m. m \<notin> fst ` set before \<longrightarrow> map_of s m = map_of amps m"
       "resolved_prefix amps s before" by auto
  have later: "\<And>n a. (n, a) \<in> set ((name, amp) # after) \<Longrightarrow> map_of s n = Some a"
  proof -
    fix n a assume na: "(n, a) \<in> set ((name, amp) # after)"
    then have "n \<in> set (map fst ((name, amp) # after))" by force
    then have "n \<notin> fst ` set before" using dist split by auto
    then have "map_of s n = map_of amps n" using s(3) by simp
    also have "\<dots> = Some a" using na split by (intro look) auto
    finally show "map_of s n = Some a" .
  qed
  have sn: "map_of s name = Some amp" by (rule later) simp
  have keys: "fst ` set s = fst ` set amps" using s(2) by (metis list.set_map)
  have none: "\<And>k. k \<notin> fst ` set amps \<Longrightarrow> map_of s k = None"
    using keys by (simp add: map_of_eq_None_iff)
  have some: "\<And>k. k \<in> fst ` set amps \<Longrightarrow> \<exists>v. map_of s k = Some v"
    using keys in_keys_map_of[of _ s] by simp
  have entry: "fixup_entry name s = (Some (KeyError (if p \<notin> fst ` set amps then p else b)), s)"
  proof (cases "p \<in> fst ` set amps")
    case True
    then obtain pa where "map_of s p = Some pa" using some by blast
    moreover have "map_of s b = None" using True missing none by blast
    ultimately show ?thesis using sn comp True by (simp add: fixup_entry_def)
  next
    case False
    then have "map_of s p = None" using none by blast
    then show ?thesis using sn comp False by (simp add: fixup_entry_def)
  qed
  have plain: "\<forall>(n, a) \<in> set amps. is_plain a \<longrightarrow> map_of s n = Some a"
  proof (clarify)
    fix n a assume na: "(n, a) \<in> set amps" and pl: "is_plain a"
    show "map_of s n = Some a"
    proof (cases "(n, a) \<in> set before")
      case True
      then obtain i where i: "i < length before" "before ! i = (n, a)" by (auto simp: in_set_conv_nth)
      with s(4) have "resolved_entry amps s (take i before) (n, a)"
        by (auto simp: resolved_prefix_def)
      then show ?thesis using pl by (simp add: resolved_entry_def is_plain_def)
    next
      case False
      then have "(n, a) \<in> set ((name, amp) # after)" using na split by auto
      then show ?thesis by (rule later)
    qed
  qed
  have "fixup_dual_stage amps = (Some (KeyError (if p \<notin> fst ` set amps then p else b)), s)"
    using s(1) entry split by (simp add: fixup_dual_stage_def)
  moreover have "\<forall>(n, a) \<in> set ((name, amp) # after). map_of s n = Some a"
    using later by blast
  ultimately show ?thesis using s(2,4) plain by blast
qed

theorem fixup_dual_stage_unresolved_witness:
  "distinct (map fst amps_unresolved) \<and>
   amps_unresolved = [(''C'', amp_C)] @ (''C2'', amp_C2) # [(''A'', amp_A), (''B'', amp_B)] \<and>
   list_all (\<lambda>(n, a). passes amps_unresolved n a) [(''C'', amp_C)] \<and>
   map_of amp_C2 ''dual_stage_model'' = Some (Model_dual_stage ''X'' ''B'') \<and>
   ''X'' \<notin> fst ` set amps_unresolved \<and>
   (\<exists>amps'. fixup_dual_stage amps_unresolved = (Some (KeyError ''X''), amps') \<and>
      map fst amps' = map fst amps_unresolved \<and>
      map_of amps' ''C2'' = Some amp_C2 \<and> map_of amps' ''A'' = Some amp_A \<and>
      map_of amps' ''B'' = Some amp_B \<and>
      map_of amps' ''C'' =
        Some (amp_C @ [(''preamp_type_variety'', PStr ''A''), (''preamp_nf0'', PNum 5),
                       (''preamp_dual_stage_model'', PNone),
                       (''booster_type_variety'', PStr ''B''), (''booster_nf0'', PNum 6),
                       (''booster_dual_stage_model'', PNone)]))"
proof -
  have h1: "distinct (map fst amps_unresolved)"
    by (simp add: amps_unresolved_def)
  have h2: "amps_unresolved = [(''C'', amp_C)] @ (''C2'', amp_C2) # [(''A'', amp_A), (''B'', amp_B)]"
    by (simp add: amps_unresolved_def)
  have h3: "list_all (\<lambda>(n, a). passes amps_unresolved n a) [(''C'', amp_C)]"
    by (simp add: amps_unresolved_def passes_def amp_C_def)
  have h4: "map_of amp_C2 ''dual_stage_model'' = Some (Model_dual_stage ''X'' ''B'')"
    by (simp add: amp_C2_def)
  have h5: "''X'' \<notin> fst ` set amps_unresolved"
    by (simp add: amps_unresolved_def)
  from fixup_dual_stage_unresolved [OF h1 h2 h3 h4] h5 obtain amps' where
    r: "fixup_dual_stage amps_unresolved = (Some (KeyError ''X''), amps')"
       "map fst amps' = map fst amps_unresolved"
       "\<forall>(n, a) \<in> set ((''C2'', amp_C2) # [(''A'', amp_A), (''B'', amp_B)]). map_of amps' n = Some a"
       "resolved_prefix amps_unresolved amps' [(''C'', amp_C)]"
    by auto
  from r(3) have l: "map_of amps' ''C2'' = Some amp_C2" "map_of amps' ''A'' = Some amp_A"
    "map_of amps' ''B'' = Some amp_B" by simp_all
  from r(4) have "resolved_entry amps_unresolved amps' [] (''C'', amp_C)"
    by (simp add: resolved_prefix_def)
  then have "map_of amps' ''C'' =
        Some (amp_C @ [(''preamp_type_variety'', PStr ''A''), (''preamp_nf0'', PNum 5),
                       (''preamp_dual_stage_model'', PNone),
                       (''booster_type_variety'', PStr ''B''), (''booster_nf0'', PNum 6),
                       (''booster_dual_stage_model'', PNone)])"
    by (simp add: resolved_entry_def stage_record_def amps_unresolved_def amp_A_def amp_B_def
        amp_C_def copy_attrs_def setattr_def)
  with r(1,2) l h1 h2 h3 h4 h5 show ?thesis by blast
qed

text \<open>
  The claim as stated fails: with the composite \<open>C\<close> ahead of the failing composite
  \<open>C2\<close>, the call raises \<^verbatim>\<open>KeyError\<close> for \<open>X\<close> and leaves \<open>C\<close> changed.
\<close>

theorem fixup_dual_stage_unresolved_counterexample:
  "fst (fixup_dual_stage amps_unresolved) = Some (KeyError ''X'') \<and>
   map_of (snd (fixup_dual_stage amps_unresolved)) ''C'' \<noteq> map_of amps_unresolved ''C''"
  by (simp add: fixup_dual_stage_def fixup_entry_def amps_unresolved_def
      amp_A_def amp_B_def amp_C_def amp_C2_def copy_attrs_def setattr_def)

section \<open>Properties of the spectrum interpolator\<close>

lemma extract_alt:
  "extract_per_spectrum key yang =
     (if \<not> ymem key yang then Inr [0]
      else ebind (spectrum_data key yang) (\<lambda>data0.
           let data = sort_key fst data0 in np_interp frequencies (map fst data) (map snd data)))"
  by (simp add: extract_per_spectrum_def Let_def)

lemma interp_at_left:
  "pts \<noteq> [] \<Longrightarrow> x < fst (hd pts) \<Longrightarrow> interp_at pts x = snd (hd pts)"
  by (induction pts x rule: interp_at.induct) auto

lemma interp_at_right:
  "pts \<noteq> [] \<Longrightarrow> sorted (map fst pts) \<Longrightarrow> fst (last pts) \<le> x \<Longrightarrow> interp_at pts x = snd (last pts)"
proof (induction pts x rule: interp_at.induct)
  case (3 k0 v0 k1 v1 ps x)
  have "k1 \<le> fst (last ((k1, v1) # ps))"
    using "3.prems"(2) by (cases ps) (auto simp: last_in_set)
  moreover have "k0 \<le> k1" using "3.prems"(2) by simp
  ultimately have "\<not> x < k0" "\<not> x < k1" using "3.prems"(3) by auto
  then show ?case using 3 by simp
qed auto

lemma interp_at_segment:
  "sorted (map fst pts) \<Longrightarrow> Suc i < length pts \<Longrightarrow> fst (pts ! i) \<le> x \<Longrightarrow> x < fst (pts ! Suc i) \<Longrightarrow>
   interp_at pts x =
     snd (pts ! i) + (snd (pts ! Suc i) - snd (pts ! i)) *
        (of_int (x - fst (pts ! i)) / of_int (fst (pts ! Suc i) - fst (pts ! i)))"
proof (induction pts x arbitrary: i rule: interp_at.induct)
  case (3 k0 v0 k1 v1 ps x)
  show ?case
  proof (cases i)
    case 0
    then show ?thesis using "3.prems" by simp
  next
    case (Suc j)
    have "fst (((k1, v1) # ps) ! j) \<in> set (map fst ((k1, v1) # ps))"
      using "3.prems"(2) Suc by (metis Suc_less_eq length_Cons length_map nth_map nth_mem Suc_lessD)
    then have "k1 \<le> fst (((k1, v1) # ps) ! j)" using "3.prems"(1) by auto
    moreover have "k0 \<le> k1" using "3.prems"(1) by simp
    ultimately have nx: "\<not> x < k0" "\<not> x < k1" using "3.prems"(3) Suc by auto
    have "interp_at ((k1, v1) # ps) x =
       snd (((k1, v1) # ps) ! j) + (snd (((k1, v1) # ps) ! Suc j) - snd (((k1, v1) # ps) ! j)) *
        (of_int (x - fst (((k1, v1) # ps) ! j)) / of_int (fst (((k1, v1) # ps) ! Suc j) - fst (((k1, v1) # ps) ! j)))"
      using "3.IH"[of j] nx "3.prems" Suc by simp
    then show ?thesis using nx Suc by simp
  qed
qed auto

lemma length_frequencies: "length frequencies = 96"
  by (simp add: frequencies_def)

text \<open>
  Claim C5. When the key is absent, the spectrum interpolator returns the one-element zero
  sequence. When it is present with at least one (frequency, value) pair, the pairs are
  sorted by frequency (a permutation in ascending order) and interpolated onto the 96
  frequencies 191.3 THz + k * 50 GHz: the result has 96 values, a frequency below the first
  point takes the first value, one at or above the last point takes the last value, and one
  between two neighbouring points lies on the line through them. With a single point
  \<open>(f0, v0)\<close> all 96 values are \<open>v0\<close>. When the key is present with an empty list of
  pairs, there is nothing to interpolate: \<^verbatim>\<open>numpy.interp\<close> raises the ValueError for an
  empty array of sample points, and no sequence is returned.
\<close>

theorem extract_per_spectrum_spec:
  "(\<not> ymem key yang \<longrightarrow> extract_per_spectrum key yang = Inr [0]) \<and>
   (ymem key yang \<and> spectrum_data key yang = Inr data \<and> data \<noteq> [] \<longrightarrow>
      (let pts = sort_key fst data in
         extract_per_spectrum key yang = Inr (map (interp_at pts) frequencies) \<and>
         length (map (interp_at pts) frequencies) = 96 \<and>
         sorted (map fst pts) \<and> mset pts = mset data \<and>
         (\<forall>x. x < fst (hd pts) \<longrightarrow> interp_at pts x = snd (hd pts)) \<and>
         (\<forall>x. fst (last pts) \<le> x \<longrightarrow> interp_at pts x = snd (last pts)) \<and>
         (\<forall>i x. Suc i < length pts \<and> fst (pts ! i) \<le> x \<and> x < fst (pts ! Suc i) \<longrightarrow>
            interp_at pts x =
              snd (pts ! i) + (snd (pts ! Suc i) - snd (pts ! i)) *
                (of_int (x - fst (pts ! i)) / of_int (fst (pts ! Suc i) - fst (pts ! i)))))) \<and>
   (ymem key yang \<and> spectrum_data key yang = Inr [(f0, v0)] \<longrightarrow>
      extract_per_spectrum key yang = Inr (replicate 96 v0)) \<and>
   (ymem key yang \<and> spectrum_data key yang = Inr [] \<longrightarrow>
      extract_per_spectrum key yang = Inl (ValueError ''array of sample points is empty'' YNull))"
proof (intro conjI impI)
  assume "\<not> ymem key yang"
  then show "extract_per_spectrum key yang = Inr [0]" by (simp add: extract_alt)
next
  assume a: "ymem key yang \<and> spectrum_data key yang = Inr data \<and> data \<noteq> []"
  let ?pts = "sort_key fst data"
  have ne: "?pts \<noteq> []" using a by (metis length_sort list.size(3) length_0_conv)
  have srt: "sorted (map fst ?pts)" by simp
  have zip: "zip (map fst ?pts) (map snd ?pts) = ?pts" by (simp add: zip_map_fst_snd)
  have run: "extract_per_spectrum key yang = Inr (map (interp_at ?pts) frequencies)"
    using a ne by (simp add: extract_alt np_interp_def Let_def zip)
  show "let pts = sort_key fst data in
         extract_per_spectrum key yang = Inr (map (interp_at pts) frequencies) \<and>
         length (map (interp_at pts) frequencies) = 96 \<and>
         sorted (map fst pts) \<and> mset pts = mset data \<and>
         (\<forall>x. x < fst (hd pts) \<longrightarrow> interp_at pts x = snd (hd pts)) \<and>
         (\<forall>x. fst (last pts) \<le> x \<longrightarrow> interp_at pts x = snd (last pts)) \<and>
         (\<forall>i x. Suc i < length pts \<and> fst (pts ! i) \<le> x \<and> x < fst (pts ! Suc i) \<longrightarrow>
            interp_at pts x =
              snd (pts ! i) + (snd (pts ! Suc i) - snd (pts ! i)) *
                (of_int (x - fst (pts ! i)) / of_int (fst (pts ! Suc i) - fst (pts ! i))))"
    unfolding Let_def
    using run srt interp_at_left[OF ne] interp_at_right[OF ne srt] interp_at_segment[OF srt]
    by (simp add: length_frequencies)
next
  assume a: "ymem key yang \<and> spectrum_data key yang = Inr [(f0, v0)]"
  have "map (interp_at [(f0, v0)]) frequencies = map (\<lambda>x. v0) frequencies"
    by simp
  then have "map (interp_at [(f0, v0)]) frequencies = replicate 96 v0"
    by (simp only: map_replicate_const length_frequencies)
  then show "extract_per_spectrum key yang = Inr (replicate 96 v0)"
    using a by (simp add: extract_alt np_interp_def)
next
  assume "ymem key yang \<and> spectrum_data key yang = Inr []"
  then show "extract_per_spectrum key yang = Inl (ValueError ''array of sample points is empty'' YNull)"
    by (simp add: extract_alt np_interp_def)
qed

theorem extract_per_spectrum_spec_witness:
  "\<not> ymem ''gain-ripple'' (YObj []) \<and>
   extract_per_spectrum ''gain-ripple'' (YObj []) = Inr [0] \<and>
   ymem ''gain-ripple'' ripple_doc \<and>
   spectrum_data ''gain-ripple'' ripple_doc = Inr [(191400000000000, 3), (191300000000000, 1)] \<and>
   extract_per_spectrum ''gain-ripple'' ripple_doc = Inr (1 # 2 # replicate 94 3) \<and>
   ymem ''gain-ripple'' ripple_doc_single \<and>
   spectrum_data ''gain-ripple'' ripple_doc_single = Inr [(193000000000000, 2)] \<and>
   extract_per_spectrum ''gain-ripple'' ripple_doc_single = Inr (replicate 96 2)"
proof -
  have a0: "\<not> ymem ''gain-ripple'' (YObj [])" by simp
  have a1: "ymem ''gain-ripple'' ripple_doc" by (simp add: ripple_doc_def)
  have a2: "spectrum_data ''gain-ripple'' ripple_doc = Inr [(191400000000000, 3), (191300000000000, 1)]"
    by (simp add: spectrum_data_def ripple_doc_def spectrum_point_def py_int_def)
  have a3: "ymem ''gain-ripple'' ripple_doc_single" by (simp add: ripple_doc_single_def)
  have a4: "spectrum_data ''gain-ripple'' ripple_doc_single = Inr [(193000000000000, 2)]"
    by (simp add: spectrum_data_def ripple_doc_single_def spectrum_point_def py_int_def)
  have ev: "map (interp_at [(191300000000000, 1), (191400000000000, 3)]) frequencies = 1 # 2 # replicate 94 3"
    by (simp add: frequencies_def upt_rec numeral_nat)
  have r0: "extract_per_spectrum ''gain-ripple'' (YObj []) = Inr [0]"
    using extract_per_spectrum_spec [of "''gain-ripple''" "YObj []"] a0 by blast
  have "extract_per_spectrum ''gain-ripple'' ripple_doc =
          Inr (map (interp_at (sort_key fst [(191400000000000, 3), (191300000000000, 1)])) frequencies)"
    using extract_per_spectrum_spec [of "''gain-ripple''" ripple_doc
        "[(191400000000000, 3), (191300000000000, 1)]"] a1 a2
    by (simp add: Let_def)
  then have r1: "extract_per_spectrum ''gain-ripple'' ripple_doc = Inr (1 # 2 # replicate 94 3)"
    using ev by simp
  have r2: "extract_per_spectrum ''gain-ripple'' ripple_doc_single = Inr (replicate 96 2)"
    using extract_per_spectrum_spec [of "''gain-ripple''" ripple_doc_single _ 193000000000000 2] a3 a4
    by blast
  show ?thesis using a0 a1 a2 a3 a4 r0 r1 r2 by blast
qed

theorem extract_per_spectrum_spec_counterexample:
  "ymem ''gain-ripple'' ripple_doc_empty \<and>
   spectrum_data ''gain-ripple'' ripple_doc_empty = Inr [] \<and>
   extract_per_spectrum ''gain-ripple'' ripple_doc_empty =
     Inl (ValueError ''array of sample points is empty'' YNull)"
  by (simp add: ripple_doc_empty_def spectrum_data_def extract_per_spectrum_def np_interp_def)

section \<open>Properties of the amplifier transform\<close>

lemma nu_Inr [simp]: "not_unrecognized (Inr x)"
  by (simp add: not_unrecognized_def)

lemma nu_ebind: "not_unrecognized m \<Longrightarrow> (\<And>x. not_unrecognized (f x)) \<Longrightarrow> not_unrecognized (ebind m f)"
  by (cases m) (auto simp: not_unrecognized_def)

lemma nu_yget [simp]: "not_unrecognized (yget y k)"
  by (cases y) (auto simp: not_unrecognized_def split: option.splits)

lemma nu_float_value [simp]: "not_unrecognized (float_value y)"
  by (cases y) (auto simp: not_unrecognized_def)

lemma nu_int_value [simp]: "not_unrecognized (int_value y)"
  by (cases y) (auto simp: not_unrecognized_def)

lemma nu_str_value [simp]: "not_unrecognized (str_value y)"
  by (cases y) (auto simp: not_unrecognized_def)

lemma nu_yentries [simp]: "not_unrecognized (yentries y)"
  by (cases y) (auto simp: not_unrecognized_def)

lemma nu_yfloat [simp]: "not_unrecognized (yfloat y k)"
  unfolding yfloat_def by (intro nu_ebind) simp_all

lemma nu_ystr [simp]: "not_unrecognized (ystr y k)"
  unfolding ystr_def by (intro nu_ebind) simp_all

lemma nu_emap: "(\<And>x. not_unrecognized (f x)) \<Longrightarrow> not_unrecognized (emap f xs)"
  by (induction xs) (auto intro!: nu_ebind)

lemma nu_spectrum_point [simp]: "not_unrecognized (spectrum_point key x)"
  unfolding spectrum_point_def by (intro nu_ebind) simp_all

lemma nu_np_interp [simp]: "not_unrecognized (np_interp x xp fp)"
  by (simp add: np_interp_def not_unrecognized_def)

lemma nu_extract [simp]: "not_unrecognized (extract_per_spectrum key y)"
  unfolding extract_per_spectrum_def spectrum_data_def Let_def
  by (auto intro!: nu_ebind nu_emap)

lemma nu_coef [simp]: "not_unrecognized (coef_abcd m)"
  unfolding coef_abcd_def by (intro nu_ebind) simp_all

lemma nu_estimate [simp]:
  "not_unrecognized (case r of None \<Rightarrow> Inl (EstimateNfModelError name)
       | Some (nf1, nf2, delta_p) \<Rightarrow> Inr (g nf1 nf2 delta_p))"
  by (auto simp: not_unrecognized_def split: option.splits)

lemma find_models:
  "find (\<lambda>k. ymem k edfa) NF_MODELS =
     (if ymem ''composite'' edfa then Some ''composite''
      else if ymem ''polynomial-NF'' edfa then Some ''polynomial-NF''
      else if ymem ''OpenROADM-ILA'' edfa then Some ''OpenROADM-ILA''
      else if ymem ''OpenROADM-preamp'' edfa then Some ''OpenROADM-preamp''
      else if ymem ''OpenROADM-booster'' edfa then Some ''OpenROADM-booster''
      else if ymem ''min-max-NF'' edfa then Some ''min-max-NF''
      else if ymem ''raman-approximation'' edfa then Some ''raman-approximation''
      else None)"
  by (simp add: NF_MODELS_def)

lemma edfa_nf_model_none:
  "find (\<lambda>k. ymem k edfa) NF_MODELS = None \<Longrightarrow> edfa_nf_model est name edfa = Inl (NotImplementedError name)"
  by (simp add: find_models edfa_nf_model_def split: if_splits)

lemma ebind_Inr_iff: "ebind m f = Inr y \<longleftrightarrow> (\<exists>x. m = Inr x \<and> f x = Inr y)"
  by (cases m) auto

lemma edfa_nf_model_nu:
  "\<not> ymem ''composite'' edfa \<Longrightarrow> find (\<lambda>k. ymem k edfa) NF_MODELS = Some k \<Longrightarrow>
   not_unrecognized (edfa_nf_model est name edfa)"
  unfolding edfa_nf_model_def find_models
  by (auto split: if_splits intro!: nu_ebind)

lemma edfa_nf_model_type_def:
  "\<not> ymem ''composite'' edfa \<Longrightarrow> find (\<lambda>k. ymem k edfa) NF_MODELS = Some k \<Longrightarrow>
   edfa_nf_model est name edfa = Inr (td, nfm, coeff) \<Longrightarrow> td = type_def_for k"
  unfolding edfa_nf_model_def find_models
  by (auto split: if_splits option.splits simp: ebind_Inr_iff)

lemma edfa_branches_none:
  "find (\<lambda>k. ymem k edfa) NF_MODELS = None \<Longrightarrow> edfa_branches est name edfa = Inl (NotImplementedError name)"
  using edfa_nf_model_none[of edfa est name]
  by (simp add: edfa_branches_def find_models split: if_splits)

lemma edfa_branches_nu:
  "find (\<lambda>k. ymem k edfa) NF_MODELS = Some k \<Longrightarrow> not_unrecognized (edfa_branches est name edfa)"
  unfolding edfa_branches_def
  by (auto intro!: nu_ebind edfa_nf_model_nu simp: split_def)

lemma edfa_branches_type_def:
  "find (\<lambda>k. ymem k edfa) NF_MODELS = Some k \<Longrightarrow> edfa_branches est name edfa = Inr l \<Longrightarrow>
   type_def l = PStr (type_def_for k)"
proof (cases "ymem ''composite'' edfa")
  case True
  assume "find (\<lambda>k. ymem k edfa) NF_MODELS = Some k" "edfa_branches est name edfa = Inr l"
  then show ?thesis using True
    by (auto simp: edfa_branches_def find_models ebind_Inr_iff)
next
  case False
  assume a: "find (\<lambda>k. ymem k edfa) NF_MODELS = Some k" "edfa_branches est name edfa = Inr l"
  from a(2) False obtain td nfm coeff where
    m: "edfa_nf_model est name edfa = Inr (td, nfm, coeff)" and t: "type_def l = PStr td"
    by (auto simp: edfa_branches_def ebind_Inr_iff)
  from edfa_nf_model_type_def[OF False a(1) m] t show ?thesis by simp
qed

lemma t_none:
  assumes "ystr edfa ''type'' = Inr name" "find (\<lambda>k. ymem k edfa) NF_MODELS = None"
  shows "transform_edfa est edfa = Inl (NotImplementedError name)"
  using assms edfa_branches_none[OF assms(2), of est name] by (simp add: transform_edfa_def)

lemma t_nu:
  assumes "ystr edfa ''type'' = Inr name" "find (\<lambda>k. ymem k edfa) NF_MODELS = Some k"
  shows "not_unrecognized (transform_edfa est edfa)"
proof -
  have "not_unrecognized (ebind (edfa_branches est name edfa) f)" if "\<And>x. not_unrecognized (f x)" for f :: "edfa_locals \<Rightarrow> error + pyobj"
    using edfa_branches_nu[OF assms(2)] that by (rule nu_ebind)
  then show ?thesis
    unfolding transform_edfa_def using assms(1)
    by (simp add: nu_ebind)
qed

lemma t_td:
  assumes "ystr edfa ''type'' = Inr name" "find (\<lambda>k. ymem k edfa) NF_MODELS = Some k"
    "transform_edfa est edfa = Inr amp"
  shows "map_of amp ''type_def'' = Some (PStr (type_def_for k))"
proof -
  from assms(1,3) obtain l where l: "edfa_branches est name edfa = Inr l"
    and amp: "map_of amp ''type_def'' = Some (type_def l)"
    unfolding transform_edfa_def by (auto simp: ebind_Inr_iff)
  from edfa_branches_type_def[OF assms(2) l] amp show ?thesis by simp
qed

text \<open>
  Claim C4, as amended. For an amplifier entry with a readable type name, the transform
  classifies the noise-figure model by the first sub-structure present in the order
  composite, polynomial-NF, OpenROADM-ILA, OpenROADM-preamp, OpenROADM-booster, min-max-NF,
  raman-approximation. It fails with the unrecognized-model error exactly when none of them
  is present; when it returns a record, that record's \<^verbatim>\<open>type_def\<close> is the one of the
  first sub-structure present, whatever else the entry holds.
\<close>

theorem transform_edfa_classification:
  assumes "ystr edfa ''type'' = Inr name"
  shows "(transform_edfa est edfa = Inl (NotImplementedError name)
            \<longleftrightarrow> find (\<lambda>k. ymem k edfa) NF_MODELS = None) \<and>
         (\<forall>amp. transform_edfa est edfa = Inr amp \<longrightarrow>
            (\<exists>k. find (\<lambda>k. ymem k edfa) NF_MODELS = Some k \<and>
                 map_of amp ''type_def'' = Some (PStr (type_def_for k))))"
proof (cases "find (\<lambda>k. ymem k edfa) NF_MODELS")
  case None
  then have "transform_edfa est edfa = Inl (NotImplementedError name)"
    using t_none[OF assms] by simp
  then show ?thesis using None by simp
next
  case (Some k)
  have 1: "transform_edfa est edfa \<noteq> Inl (NotImplementedError name)"
    using t_nu[OF assms Some, of est] by (simp add: not_unrecognized_def)
  show ?thesis using Some 1 t_td[OF assms Some] by simp
qed

theorem transform_edfa_classification_witness:
  "ystr edfa_no_model ''type'' = Inr ''A'' \<and>
   find (\<lambda>k. ymem k edfa_no_model) NF_MODELS = None \<and>
   transform_edfa no_estimate_nf_model edfa_no_model = Inl (NotImplementedError ''A'') \<and>
   ystr edfa_polynomial ''type'' = Inr ''B'' \<and>
   find (\<lambda>k. ymem k edfa_polynomial) NF_MODELS = Some ''polynomial-NF'' \<and>
   (\<exists>amp. transform_edfa no_estimate_nf_model edfa_polynomial = Inr amp \<and>
      map_of amp ''type_def'' = Some (PStr ''advanced_model''))"
proof -
  have a1: "ystr edfa_no_model ''type'' = Inr ''A''"
    by (simp add: ystr_def edfa_no_model_def)
  have a2: "find (\<lambda>k. ymem k edfa_no_model) NF_MODELS = None"
    by (simp add: NF_MODELS_def edfa_no_model_def)
  have b1: "ystr edfa_polynomial ''type'' = Inr ''B''"
    by (simp add: ystr_def edfa_polynomial_def)
  have b2: "find (\<lambda>k. ymem k edfa_polynomial) NF_MODELS = Some ''polynomial-NF''"
    by (simp add: NF_MODELS_def edfa_polynomial_def)
  have b3: "\<exists>amp. transform_edfa no_estimate_nf_model edfa_polynomial = Inr amp"
    by (simp add: transform_edfa_def edfa_branches_def edfa_nf_model_def coef_abcd_def
        extract_per_spectrum_def ystr_def yfloat_def edfa_polynomial_def)
  have r1: "transform_edfa no_estimate_nf_model edfa_no_model = Inl (NotImplementedError ''A'')"
    using transform_edfa_classification [OF a1, of no_estimate_nf_model] a2 by simp
  from b3 obtain amp where amp: "transform_edfa no_estimate_nf_model edfa_polynomial = Inr amp" by blast
  then have "map_of amp ''type_def'' = Some (PStr ''advanced_model'')"
    using transform_edfa_classification [OF b1, of no_estimate_nf_model] b2 by simp
  with amp a1 a2 b1 b2 r1 show ?thesis by blast
qed

text \<open>
  The claim as stated fails: an entry with both a composite and a polynomial-NF
  sub-structure is accepted, as a dual-stage amplifier.
\<close>

theorem transform_edfa_classification_counterexample:
  "ymem ''composite'' edfa_two_models \<and> ymem ''polynomial-NF'' edfa_two_models \<and>
   transform_edfa no_estimate_nf_model edfa_two_models =
     Inr [(''type_variety'', PStr ''C''), (''type_def'', PStr ''dual_stage''),
          (''f_min'', PNone), (''f_max'', PNone), (''gain_min'', PNum 10),
          (''gain_flatmax'', PNone), (''p_max'', PNone),
          (''nf_fit_coeff'', PNone), (''nf_ripple'', PNone), (''dgt'', PNone),
          (''gain_ripple'', PNone), (''out_voa_auto'', PNone),
          (''allowed_for_design'', PBool True), (''raman'', PBool False),
          (''nf_model'', PNone),
          (''dual_stage_model'', Model_dual_stage ''A'' ''B'')]"
  by (simp add: transform_edfa_def edfa_branches_def ystr_def yfloat_def edfa_two_models_def)

section \<open>Properties of the network loader\<close>

lemma nn_Inr [simp]: "not_unrecognized_node (Inr x)"
  by (simp add: not_unrecognized_node_def)

lemma nn_ebind:
  "not_unrecognized_node m \<Longrightarrow> (\<And>x. not_unrecognized_node (f x)) \<Longrightarrow> not_unrecognized_node (ebind m f)"
  by (cases m) (auto simp: not_unrecognized_node_def)

lemma nn_yget [simp]: "not_unrecognized_node (yget y k)"
  by (cases y) (auto simp: not_unrecognized_node_def split: option.splits)

lemma nn_float_value [simp]: "not_unrecognized_node (float_value y)"
  by (cases y) (auto simp: not_unrecognized_node_def UNRECOGNIZED_NODE_def)

lemma nn_str_value [simp]: "not_unrecognized_node (str_value y)"
  by (cases y) (auto simp: not_unrecognized_node_def)

lemma nn_yfloat [simp]: "not_unrecognized_node (yfloat y k)"
  unfolding yfloat_def by (intro nn_ebind) simp_all

lemma nn_ystr [simp]: "not_unrecognized_node (ystr y k)"
  unfolding ystr_def by (intro nn_ebind) simp_all

lemma nn_optional_float [simp]: "not_unrecognized_node (optional_float y k d)"
  unfolding optional_float_def by (auto intro!: nn_ebind)

lemma nn_equipment_entry [simp]: "not_unrecognized_node (equipment_entry e k n)"
  by (auto simp: equipment_entry_def not_unrecognized_node_def split: option.splits)

lemma find_node_kinds:
  "find (\<lambda>k. ymem k node) NODE_KINDS =
     (if ymem ''tip-photonic-topology:amplifier'' node then Some ''tip-photonic-topology:amplifier''
      else if ymem ''tip-photonic-topology:roadm'' node then Some ''tip-photonic-topology:roadm''
      else if ymem ''tip-photonic-topology:transceiver'' node then Some ''tip-photonic-topology:transceiver''
      else if ymem ''tip-photonic-topology:attenuator'' node then Some ''tip-photonic-topology:attenuator''
      else None)"
  by (simp add: NODE_KINDS_def)

lemma load_element_none:
  "find (\<lambda>k. ymem k node) NODE_KINDS = None \<Longrightarrow>
   load_element equipment node_id loc node = Inl (ValueError UNRECOGNIZED_NODE node)"
  by (simp add: find_node_kinds load_element_def split: if_splits)

lemma load_element_nn:
  "find (\<lambda>k. ymem k node) NODE_KINDS = Some k \<Longrightarrow>
   not_unrecognized_node (load_element equipment node_id loc node)"
  unfolding load_element_def find_node_kinds
  by (auto split: if_splits intro!: nn_ebind)

lemma ebind_InrE:
  assumes "ebind m f = Inr y"
  obtains x where "m = Inr x" "f x = Inr y"
  using assms by (cases m) auto

lemma load_element_variant:
  assumes "find (\<lambda>k. ymem k node) NODE_KINDS = Some k"
    and "load_element equipment node_id loc node = Inr el"
  shows "variant el = variant_for k \<and> uid el = node_id"
proof -
  consider (a) "ymem ''tip-photonic-topology:amplifier'' node"
    | (r) "\<not> ymem ''tip-photonic-topology:amplifier'' node" "ymem ''tip-photonic-topology:roadm'' node"
    | (t) "\<not> ymem ''tip-photonic-topology:amplifier'' node" "\<not> ymem ''tip-photonic-topology:roadm'' node"
          "ymem ''tip-photonic-topology:transceiver'' node"
    | (f) "\<not> ymem ''tip-photonic-topology:amplifier'' node" "\<not> ymem ''tip-photonic-topology:roadm'' node"
          "\<not> ymem ''tip-photonic-topology:transceiver'' node" "ymem ''tip-photonic-topology:attenuator'' node"
    using assms(1) by (auto simp: find_node_kinds split: if_splits)
  then show ?thesis
  proof cases
    case a
    then have k: "k = ''tip-photonic-topology:amplifier''" using assms(1) by (simp add: find_node_kinds)
    from assms(2) a show ?thesis unfolding k load_element_def
      by (auto elim!: ebind_InrE)
  next
    case r
    then have k: "k = ''tip-photonic-topology:roadm''" using assms(1) by (simp add: find_node_kinds)
    from assms(2) r show ?thesis unfolding k load_element_def
      by (auto elim!: ebind_InrE)
  next
    case t
    then have k: "k = ''tip-photonic-topology:transceiver''" using assms(1) by (simp add: find_node_kinds)
    from assms(2) t show ?thesis unfolding k load_element_def
      by (auto elim!: ebind_InrE)
  next
    case f
    then have k: "k = ''tip-photonic-topology:attenuator''" using assms(1) by (simp add: find_node_kinds)
    from assms(2) f show ?thesis unfolding k load_element_def
      by (auto elim!: ebind_InrE)
  qed
qed

text \<open>
  Claim C7, as amended. For a topology node whose identifier and location can be read, the
  loader classifies it by the first sub-structure present in the order amplifier, roadm,
  transceiver, attenuator. It raises the structural error, which carries the offending node,
  exactly when none of the four is present; when it builds an element, the element has the
  variant of the first sub-structure present and the node's identifier, whatever else the
  node holds.
\<close>

theorem load_node_classification:
  assumes "ystr node ''node-id'' = Inr node_id" and "node_location node = Inr loc"
  shows "(load_node equipment node = Inl (ValueError UNRECOGNIZED_NODE node)
            \<longleftrightarrow> find (\<lambda>k. ymem k node) NODE_KINDS = None) \<and>
         (\<forall>el. load_node equipment node = Inr el \<longrightarrow>
            (\<exists>k. find (\<lambda>k. ymem k node) NODE_KINDS = Some k \<and>
                 variant el = variant_for k \<and> uid el = node_id))"
proof -
  have eq: "load_node equipment node = load_element equipment node_id loc node"
    using assms by (simp add: load_node_def)
  show ?thesis
  proof (cases "find (\<lambda>k. ymem k node) NODE_KINDS")
    case None
    then show ?thesis using eq load_element_none[OF None, of equipment node_id loc] by simp
  next
    case (Some k)
    have "load_node equipment node \<noteq> Inl (ValueError UNRECOGNIZED_NODE node)"
      using eq load_element_nn[OF Some, of equipment node_id loc]
      by (simp add: not_unrecognized_node_def)
    then show ?thesis using Some eq load_element_variant[OF Some, of equipment node_id loc] by auto
  qed
qed

theorem load_node_classification_witness:
  "ystr node_located_no_kind ''node-id'' = Inr ''N2'' \<and>
   node_location node_located_no_kind = Inr (Some \<lparr>longitude = 2, latitude = 48\<rparr>) \<and>
   find (\<lambda>k. ymem k node_located_no_kind) NODE_KINDS = None \<and>
   load_node example_equipment node_located_no_kind
     = Inl (ValueError UNRECOGNIZED_NODE node_located_no_kind) \<and>
   ystr node_located_roadm ''node-id'' = Inr ''Y'' \<and>
   node_location node_located_roadm = Inr (Some \<lparr>longitude = 2, latitude = 48\<rparr>) \<and>
   find (\<lambda>k. ymem k node_located_roadm) NODE_KINDS = Some ''tip-photonic-topology:roadm'' \<and>
   (\<exists>el. load_node example_equipment node_located_roadm = Inr el \<and> variant el = Roadm \<and>
         uid el = ''Y'' \<and> metadata el = Some \<lparr>longitude = 2, latitude = 48\<rparr>)"
proof -
  have a1: "ystr node_located_no_kind ''node-id'' = Inr ''N2''"
    by (simp add: ystr_def node_located_no_kind_def)
  have a2: "node_location node_located_no_kind = Inr (Some \<lparr>longitude = 2, latitude = 48\<rparr>)"
    by (simp add: node_location_def node_located_no_kind_def yfloat_def local_name_def)
  have a3: "find (\<lambda>k. ymem k node_located_no_kind) NODE_KINDS = None"
    by (simp add: NODE_KINDS_def node_located_no_kind_def)
  have b1: "ystr node_located_roadm ''node-id'' = Inr ''Y''"
    by (simp add: ystr_def node_located_roadm_def)
  have b2: "node_location node_located_roadm = Inr (Some \<lparr>longitude = 2, latitude = 48\<rparr>)"
    by (simp add: node_location_def node_located_roadm_def yfloat_def local_name_def)
  have b3: "find (\<lambda>k. ymem k node_located_roadm) NODE_KINDS = Some ''tip-photonic-topology:roadm''"
    by (simp add: NODE_KINDS_def node_located_roadm_def)
  have b4: "\<exists>el. load_node example_equipment node_located_roadm = Inr el \<and>
              metadata el = Some \<lparr>longitude = 2, latitude = 48\<rparr>"
    using b1 b2
    by (simp add: load_node_def load_element_def ystr_def
        equipment_entry_def example_equipment_def node_located_roadm_def)
  have r1: "load_node example_equipment node_located_no_kind
              = Inl (ValueError UNRECOGNIZED_NODE node_located_no_kind)"
    using load_node_classification [OF a1 a2, of example_equipment] a3 by simp
  from b4 obtain el where el: "load_node example_equipment node_located_roadm = Inr el"
    "metadata el = Some \<lparr>longitude = 2, latitude = 48\<rparr>" by blast
  then have "variant el = Roadm \<and> uid el = ''Y''"
    using load_node_classification [OF b1 b2, of example_equipment] b3 by simp
  with el a1 a2 a3 b1 b2 b3 r1 show ?thesis by blast
qed

text \<open>
  The claim as stated fails: a node with both an amplifier and a roadm sub-structure is
  built as an Edfa, with no error.
\<close>

theorem load_node_classification_counterexample:
  "ymem ''tip-photonic-topology:amplifier'' node_two_kinds \<and>
   ymem ''tip-photonic-topology:roadm'' node_two_kinds \<and>
   load_node example_equipment node_two_kinds =
     Inr \<lparr>variant = Edfa, uid = ''N1'', type_variety = Some ''std_low_gain'', metadata = None,
          params = [(''type_variety'', PStr ''std_low_gain''), (''gain_min'', PNum 8),
                    (''dual_stage_model'', PNone)],
          operational = [(''gain_target'', PNone), (''tilt_target'', PNum 0),
                         (''out_voa'', PNone), (''delta_p'', PNone)]\<rparr>"
  by (simp add: load_node_def load_element_def node_location_def ystr_def optional_float_def
      equipment_entry_def example_equipment_def node_two_kinds_def)

text \<open>
  Claim C2 at the topology with the fiber links L1 (X to Y, length 80) and L2 (Y to Z,
  length 40): the loader builds one Fiber node per link, each with its own length (in
  metres), and the two edges per link, but the edge from X into L1 has weight 40, the length
  of L2.
\<close>

theorem load_network_two_fibers:
  "\<exists>g. load_network (Some origin) two_fiber_doc example_equipment = Inr g \<and>
       map uid (graph_nodes g) = [''X'', ''Y'', ''Z'', ''L1'', ''L2''] \<and>
       map variant (graph_nodes g) = [Roadm, Roadm, Roadm, Fiber, Fiber] \<and>
       map_of (params (graph_nodes g ! 3)) ''length'' = Some (PNum 80000) \<and>
       map_of (params (graph_nodes g ! 4)) ''length'' = Some (PNum 40000) \<and>
       graph_edges g = [(0, 3, 40), (3, 1, 1 / 100), (1, 4, 40), (4, 2, 1 / 100)]"
  by (simp add: load_network_def load_net_def load_node_def load_element_def node_location_def
      ystr_def yfloat_def equipment_entry_def example_equipment_def node_roadm_def register_def
      add_node_def add_edge_def DiGraph_def roadm_params_def two_fiber_doc_def fiber_link_def
      load_fiber_node_def load_link_edges_def link_source_def link_target_def node_ref_def
      node_metadata_location_def getattr_def origin_def fiber_params_def Let_def)

section \<open>Properties of the topology serializer\<close>

lemma json_yang_link_one:
  "k \<noteq> ''link-id'' \<Longrightarrow> k \<noteq> ''source'' \<Longrightarrow> k \<noteq> ''destination'' \<Longrightarrow>
   json_yang_link i s d [(k, v)] =
     YObj [(''link-id'', YStr i), (''source'', YObj [(''source-node'', YStr s)]),
           (''destination'', YObj [(''dest-node'', YStr d)]), (k, v)]"
  by (simp add: json_yang_link_def)













lemma store_fiber_none:
  "predecessors g i = [] \<or> successors g i = [] \<Longrightarrow> store_fiber g i = Inl StopIteration"
  by (auto simp: store_fiber_def Let_def split: list.splits)

lemma store_fiber_some:
  assumes "predecessors g i = p # ps" "successors g i = s # ss" "fiber_readable (graph_nodes g ! i)"
  shows "\<exists>link. store_fiber g i = Inr link \<and>
           is_fiber_link (uid (graph_nodes g ! i)) (uid (graph_nodes g ! p)) (uid (graph_nodes g ! s)) link"
proof -
  from assms(3) obtain tv len a ci co where
    "type_variety (graph_nodes g ! i) = Some tv"
    "map_of (params (graph_nodes g ! i)) ''length'' = Some (PNum len)"
    "map_of (params (graph_nodes g ! i)) ''att_in'' = Some a"
    "map_of (params (graph_nodes g ! i)) ''con_in'' = Some ci"
    "map_of (params (graph_nodes g ! i)) ''con_out'' = Some co"
    by (auto simp: fiber_readable_def split: option.splits pyval.splits)
  then show ?thesis using assms(1,2)
    by (simp add: store_fiber_def Let_def read_type_variety_def getattr_def json_yang_link_one
        is_fiber_link_def link_source_def link_target_def ystr_def)
qed

text \<open>
  Claim C8, as amended. For a Fiber node, the serializer takes the first predecessor and the
  first successor that graph adjacency lists. If there is no predecessor or no successor the
  round fails with \<^verbatim>\<open>StopIteration\<close> and appends nothing; if there is at least one of
  each (and the node's type and params can be read) it appends a single link entry with the
  node's identifier, from the first predecessor's identifier to the first successor's,
  however many predecessors or successors there are.
\<close>

theorem store_node_fiber:
  assumes "variant (graph_nodes (graph st) ! i) = Fiber"
  shows "(predecessors (graph st) i = [] \<or> successors (graph st) i = [] \<longrightarrow>
            store_node equipment i st = (Some StopIteration, st)) \<and>
         (\<forall>p ps s ss. predecessors (graph st) i = p # ps \<and> successors (graph st) i = s # ss \<and>
              fiber_readable (graph_nodes (graph st) ! i) \<longrightarrow>
            (\<exists>link. store_node equipment i st = (None, st\<lparr>out_links := out_links st @ [link]\<rparr>) \<and>
               is_fiber_link (uid (graph_nodes (graph st) ! i)) (uid (graph_nodes (graph st) ! p))
                 (uid (graph_nodes (graph st) ! s)) link))"
proof (intro conjI allI impI)
  assume "predecessors (graph st) i = [] \<or> successors (graph st) i = []"
  from store_fiber_none[OF this] show "store_node equipment i st = (Some StopIteration, st)"
    using assms by (simp add: store_node_def Let_def)
next
  fix p ps s ss
  assume a: "predecessors (graph st) i = p # ps \<and> successors (graph st) i = s # ss \<and>
              fiber_readable (graph_nodes (graph st) ! i)"
  then obtain link where l: "store_fiber (graph st) i = Inr link"
    "is_fiber_link (uid (graph_nodes (graph st) ! i)) (uid (graph_nodes (graph st) ! p))
                 (uid (graph_nodes (graph st) ! s)) link"
    using store_fiber_some[of "graph st" i p ps s ss] by blast
  have "store_node equipment i st = (None, st\<lparr>out_links := out_links st @ [link]\<rparr>)"
    using assms l(1) by (simp add: store_node_def Let_def)
  then show "\<exists>link. store_node equipment i st = (None, st\<lparr>out_links := out_links st @ [link]\<rparr>) \<and>
               is_fiber_link (uid (graph_nodes (graph st) ! i)) (uid (graph_nodes (graph st) ! p))
                 (uid (graph_nodes (graph st) ! s)) link"
    using l(2) by blast
qed

theorem store_node_fiber_witness:
  "variant (graph_nodes graph_lonely_fiber ! 0) = Fiber \<and>
   predecessors graph_lonely_fiber 0 = [] \<and>
   store_node example_equipment 0 \<lparr>graph = graph_lonely_fiber, out_nodes = [], out_links = []\<rparr>
     = (Some StopIteration, \<lparr>graph = graph_lonely_fiber, out_nodes = [], out_links = []\<rparr>) \<and>
   variant (graph_nodes graph_one_fiber ! 2) = Fiber \<and>
   predecessors graph_one_fiber 2 = [0] \<and> successors graph_one_fiber 2 = [1] \<and>
   fiber_readable (graph_nodes graph_one_fiber ! 2) \<and>
   (\<exists>link. store_node example_equipment 2 \<lparr>graph = graph_one_fiber, out_nodes = [], out_links = []\<rparr>
              = (None, \<lparr>graph = graph_one_fiber, out_nodes = [], out_links = [link]\<rparr>) \<and>
            is_fiber_link ''F'' ''A'' ''B'' link)"
proof -
  let ?s0 = "\<lparr>graph = graph_lonely_fiber, out_nodes = [], out_links = []\<rparr>"
  let ?s1 = "\<lparr>graph = graph_one_fiber, out_nodes = [], out_links = []\<rparr>"
  have a1: "variant (graph_nodes (graph ?s0) ! 0) = Fiber"
    by (simp add: graph_lonely_fiber_def plain_element_def)
  have a2: "predecessors (graph ?s0) 0 = []"
    by (simp add: graph_lonely_fiber_def predecessors_def)
  have b1: "variant (graph_nodes (graph ?s1) ! 2) = Fiber"
    by (simp add: graph_one_fiber_def plain_element_def)
  have b2: "predecessors (graph ?s1) 2 = [0]" "successors (graph ?s1) 2 = [1]"
    by (simp_all add: graph_one_fiber_def predecessors_def successors_def)
  have b3: "fiber_readable (graph_nodes (graph ?s1) ! 2)"
    by (simp add: graph_one_fiber_def plain_element_def fiber_readable_def fiber_ps_def)
  have r0: "store_node example_equipment 0 ?s0 = (Some StopIteration, ?s0)"
    using store_node_fiber [OF a1, of example_equipment] a2 by blast
  obtain link where l: "store_node example_equipment 2 ?s1 = (None, ?s1\<lparr>out_links := out_links ?s1 @ [link]\<rparr>)"
    "is_fiber_link (uid (graph_nodes (graph ?s1) ! 2)) (uid (graph_nodes (graph ?s1) ! 0))
       (uid (graph_nodes (graph ?s1) ! 1)) link"
    using store_node_fiber [OF b1, of example_equipment] b2 b3 by blast
  from l(2) have "is_fiber_link ''F'' ''A'' ''B'' link"
    by (simp add: graph_one_fiber_def plain_element_def)
  moreover from l(1) have "store_node example_equipment 2 ?s1
        = (None, \<lparr>graph = graph_one_fiber, out_nodes = [], out_links = [link]\<rparr>)" by simp
  ultimately show ?thesis using a1 a2 b1 b2 b3 r0 by auto
qed

text \<open>
  The claim as stated fails: a Fiber node with the two predecessors A and B is stored without
  any error, as one link from A.
\<close>

theorem store_node_fiber_counterexample:
  "variant (graph_nodes graph_two_predecessors ! 3) = Fiber \<and>
   predecessors graph_two_predecessors 3 = [0, 1] \<and>
   successors graph_two_predecessors 3 = [2] \<and>
   store_node example_equipment 3 \<lparr>graph = graph_two_predecessors, out_nodes = [], out_links = []\<rparr>
     = (None, \<lparr>graph = graph_two_predecessors, out_nodes = [], out_links =
          [YObj [(''link-id'', YStr ''F''),
                 (''source'', YObj [(''source-node'', YStr ''A'')]),
                 (''destination'', YObj [(''dest-node'', YStr ''C'')]),
                 (''tip-photonic-topology:fiber'',
                    YObj [(''type'', YStr ''SSMF''), (''length'', YNum 80),
                          (''attenuation-in'', YNum 0), (''conn-att-in'', YNum (1 / 2)),
                          (''conn-att-out'', YNum (1 / 2))])]]\<rparr>) \<and>
   (\<exists>raw. store_topology [] example_equipment graph_two_predecessors = (Inr raw, graph_two_predecessors))"
  by (simp add: store_topology_def store_node_def store_fiber_def store_edge_def edges_view_def
      graph_two_predecessors_def plain_element_def predecessors_def successors_def
      read_type_variety_def getattr_def json_yang_link_def fiber_ps_def roadm_ps_def Let_def
      upt_rec dict_get_def patch_id_def)







section \<open>Storing and reloading an amplifier type\<close>

text \<open>
  Whatever entry the loader is given, the record it builds is allowed for automatic design
  and has no output attenuator setting: the transform writes both as constants.
\<close>

lemma transform_edfa_constants:
  "transform_edfa est edfa = Inr amp \<Longrightarrow>
   map_of amp ''allowed_for_design'' = Some (PBool True) \<and> map_of amp ''out_voa_auto'' = Some PNone"
  by (auto simp: transform_edfa_def elim!: ebind_InrE)

text \<open>
  Claim C1 at an amplifier type that is not allowed for automatic design and has an output
  attenuator: storing the record and transforming the stored entry gives a record that
  differs from the original in \<^verbatim>\<open>allowed_for_design\<close> and \<^verbatim>\<open>out_voa_auto\<close>.
\<close>

theorem store_load_edfa_not_reproduced:
  "store_equipment_edfa ''A'' amp_not_for_design =
     Inr (YObj [(''type'', YStr ''A''), (''gain-min'', YNum 15),
                (''frequency-min'', YNum (1913 / 10)), (''frequency-max'', YNum (1961 / 10)),
                (''gain-flatmax'', YNum 25), (''max-power-out'', YNum 21),
                (''has-output-voa'', YBool True),
                (''polynomial-NF'', YObj [(''a'', YNum 0), (''b'', YNum 0), (''c'', YNum 0),
                                         (''d'', YNum 5)])]) \<and>
   ebind (store_equipment_edfa ''A'' amp_not_for_design) (transform_edfa no_estimate_nf_model) =
     Inr (AList.update ''allowed_for_design'' (PBool True)
           (AList.update ''out_voa_auto'' PNone amp_not_for_design)) \<and>
   map_of amp_not_for_design ''allowed_for_design'' = Some (PBool False) \<and>
   map_of amp_not_for_design ''out_voa_auto'' = Some (PBool True)"
  by (simp add: store_equipment_edfa_def store_nf_model_def str_coefficients_def getattr_def
      amp_not_for_design_def THZ_def transform_edfa_def edfa_branches_def edfa_nf_model_def
      coef_abcd_def extract_per_spectrum_def ystr_def yfloat_def)


end
